theory Spec2Isabelle
  imports Complex_Main
begin

section \<open>Data model of the streaming server\<close>

text \<open>
  The embedding follows \<^verbatim>\<open>streaming_server.py\<close> (class \<^verbatim>\<open>MuseTalkStreamingServer\<close>)
  and the \<^verbatim>\<open>cleanup\<close> method of \<^verbatim>\<open>musetalk_wrapper.py\<close>.

  Raw audio and video payloads are byte strings.
\<close>

type_synonym bytes = string

text \<open>
  The value \<^verbatim>\<open>json.loads\<close> returns. Numbers are integers here (no handler of the server
  computes with a number of a message); a dict is the list of its items.
\<close>

datatype json =
    JNull
  | JBool bool
  | JNum int
  | JStr string
  | JList "json list"
  | JDict "(string \<times> json) list"

text \<open>The exceptions the modelled code can meet.\<close>

datatype exc =
    JSONDecodeError
  | AttributeError
  | KeyError
  | TypeError
  | BinasciiError
  | RuntimeError
  | OSError
  | ConnectionClosed
  | UnicodeDecodeError
  | RecursionError
  | OverflowError

text \<open>Python's truth value of a JSON value, as \<^verbatim>\<open>not x\<close> and \<^verbatim>\<open>if x\<close> test it.\<close>

fun truthy :: "json \<Rightarrow> bool" where
  "truthy JNull = False"
| "truthy (JBool b) = b"
| "truthy (JNum n) = (n \<noteq> 0)"
| "truthy (JStr s) = (s \<noteq> [])"
| "truthy (JList xs) = (xs \<noteq> [])"
| "truthy (JDict kvs) = (kvs \<noteq> [])"

text \<open>
  \<^verbatim>\<open>data.get(key)\<close>: the value or \<^verbatim>\<open>None\<close> on a dict; every other JSON value has no
  \<^verbatim>\<open>get\<close> attribute.
\<close>

fun dict_get :: "json \<Rightarrow> string \<Rightarrow> exc + json" where
  "dict_get (JDict kvs) k = Inr (case map_of kvs k of None \<Rightarrow> JNull | Some v \<Rightarrow> v)"
| "dict_get _ k = Inl AttributeError"

text \<open>\<^verbatim>\<open>data.get(key, default)\<close>.\<close>

fun dict_get_default :: "json \<Rightarrow> string \<Rightarrow> json \<Rightarrow> exc + json" where
  "dict_get_default (JDict kvs) k d = Inr (case map_of kvs k of None \<Rightarrow> d | Some v \<Rightarrow> v)"
| "dict_get_default _ k d = Inl AttributeError"

text \<open>
  The text of an \<^verbatim>\<open>error\<close> event: one constructor for each message template of the
  source, carrying what the template interpolates.
\<close>

datatype errmsg =
    UnknownMessageType json
  | InvalidJSONMessage
  | ErrorProcessingMessage exc
  | EitherDataOrPathMustBeProvided
  | AvatarVideoNotFound json
  | FailedToInitializeAvatar
  | AvatarInitializationError exc
  | ErrorInitializingAvatar exc
  | ClientNotFound
  | AvatarNotInitialized
  | NoAudioDataProvided
  | ErrorHandlingAudioChunk exc
  | FailedToGenerateVideo
  | AudioProcessingError exc
  | ErrorGettingStatus exc

text \<open>The outbound events, by their \<^verbatim>\<open>type\<close> field.\<close>

datatype outbound =
    ConnectionEstablished string
  | AvatarInitializationStarted string
  | AvatarInitialized string
  | AudioReceived
  | VideoChunk string rat
  | Status string bool "string option" nat bool
  | ErrorEvent errmsg

text \<open>
  One entry of \<^verbatim>\<open>self.clients\<close>. The websocket is a handle; what is written to it is
  recorded in the server state below.
\<close>

record client =
  websocket :: nat
  avatar_id :: "string option"
  audio_queue :: "bytes list"
  processing :: bool

text \<open>
  A \<^verbatim>\<open>MuseTalkWrapper\<close> object, with the attributes the server's code paths depend on.
\<close>

record wrapper =
  avatar_video_path :: string
  version :: json
  temp_dir :: string
  avatar_prepared :: bool

text \<open>
  The server object (\<^verbatim>\<open>clients\<close>, \<^verbatim>\<open>avatars\<close>) together with the part of the
  environment its methods act on: the connections that raise on \<^verbatim>\<open>send\<close>
  (\<open>closed\<close>), the messages written to connections in order (\<open>wire\<close>), the paths that
  exist in the file system (\<open>files\<close>) and the directories \<^verbatim>\<open>shutil.rmtree\<close> fails on
  (\<open>locked\<close>).
\<close>

record server =
  clients :: "string \<rightharpoonup> client"
  avatars :: "string \<rightharpoonup> wrapper"
  closed :: "nat set"
  wire :: "(nat \<times> outbound) list"
  files :: "string set"
  locked :: "string set"

text \<open>
  Library functions the handlers call: base64 decoding of a text (\<open>None\<close> when it raises),
  base64 encoding, and whether an integer is an open file descriptor (what
  \<^verbatim>\<open>os.path.exists\<close> answers on an integer).
\<close>

record lib =
  b64decode :: "string \<Rightarrow> bytes option"
  b64encode :: "bytes \<Rightarrow> string"
  fd_open :: "int \<Rightarrow> bool"

text \<open>The background threads a handler starts, with their arguments.\<close>

datatype thread =
    InitializeAvatar string string json json
  | ProcessAudioQueue string string

section \<open>Sending\<close>

text \<open>
  \<^verbatim>\<open>send_message\<close>: nothing is sent for an unknown client; an exception of
  \<^verbatim>\<open>websocket.send\<close> is logged and swallowed.
\<close>

definition send_message :: "server \<Rightarrow> string \<Rightarrow> outbound \<Rightarrow> server" where
  "send_message s client_id message =
     (case clients s client_id of
        None \<Rightarrow> s
      | Some c \<Rightarrow>
          if websocket c \<in> closed s then s
          else s\<lparr>wire := wire s @ [(websocket c, message)]\<rparr>)"

definition send_error :: "server \<Rightarrow> string \<Rightarrow> errmsg \<Rightarrow> server" where
  "send_error s client_id error_message = send_message s client_id (ErrorEvent error_message)"

section \<open>Teardown\<close>

text \<open>
  \<^verbatim>\<open>MuseTalkWrapper.cleanup\<close>: removes the temporary directory when it exists; a failure
  of \<^verbatim>\<open>shutil.rmtree\<close> is logged and swallowed.
\<close>

definition cleanup :: "wrapper \<Rightarrow> server \<Rightarrow> server" where
  "cleanup w s =
     (if temp_dir w \<in> files s then
        (if temp_dir w \<in> locked s then s
         else s\<lparr>files := files s - {temp_dir w}\<rparr>)
      else s)"

text \<open>
  The destructor \<^verbatim>\<open>MuseTalkWrapper.__del__\<close>, which runs when a wrapper loses its last
  reference: it calls \<^verbatim>\<open>cleanup\<close>.
\<close>

definition wrapper_del :: "wrapper \<Rightarrow> server \<Rightarrow> server" where
  "wrapper_del w s = cleanup w s"

text \<open>
  \<^verbatim>\<open>cleanup_client\<close>. \<^verbatim>\<open>if avatar_id and avatar_id in self.avatars\<close> tests the truth
  value of the id (not \<^verbatim>\<open>None\<close>, not empty) before the lookup. The wrapper deleted from
  the table is collected once no thread holds it, and its destructor then calls
  \<^verbatim>\<open>cleanup\<close> a second time, which changes nothing after the first call.
\<close>

definition cleanup_client :: "server \<Rightarrow> string \<Rightarrow> server" where
  "cleanup_client s client_id =
     (case clients s client_id of
        None \<Rightarrow> s
      | Some c \<Rightarrow>
          let s1 = (case avatar_id c of
                      None \<Rightarrow> s
                    | Some aid \<Rightarrow>
                        if aid \<noteq> [] then
                          (case avatars s aid of
                             None \<Rightarrow> s
                           | Some w \<Rightarrow> (cleanup w s)\<lparr>avatars := (avatars s)(aid := None)\<rparr>)
                        else s)
          in s1\<lparr>clients := (clients s1)(client_id := None)\<rparr>)"

section \<open>Identifiers\<close>

text \<open>Python's \<^verbatim>\<open>str\<close> of an integer: decimal digits, with a minus sign when negative.\<close>

definition digit_char :: "nat \<Rightarrow> char" where
  "digit_char d = ''0123456789'' ! d"

fun str_nat :: "nat \<Rightarrow> string" where
  "str_nat n = (if n < 10 then [digit_char n] else str_nat (n div 10) @ [digit_char (n mod 10)])"

declare str_nat.simps [simp del]

definition str_int :: "int \<Rightarrow> string" where
  "str_int i = (if i < 0 then CHR ''-'' # str_nat (nat (- i)) else str_nat (nat i))"

section \<open>Connection establishment\<close>

text \<open>
  \<^verbatim>\<open>register_client\<close>, lines 36 to 51: the id, the registry entry and the greeting.
  \<open>now_ms\<close> is the value of \<^verbatim>\<open>int(time.time() * 1000)\<close> at the call. The greeting is
  written to the websocket directly; when that raises, the message loop is skipped and
  the \<^verbatim>\<open>finally\<close> clause runs \<open>cleanup_client\<close>. The message loop itself is
  \<open>handle_message\<close> for each message, and the \<^verbatim>\<open>finally\<close> clause after it is
  \<open>cleanup_client\<close>.
\<close>

definition register_client :: "server \<Rightarrow> nat \<Rightarrow> int \<Rightarrow> string \<times> server" where
  "register_client s ws now_ms =
     (let client_id = ''client_'' @ str_int now_ms;
          s1 = s\<lparr>clients := (clients s)(client_id \<mapsto>
                 \<lparr>websocket = ws, avatar_id = None, audio_queue = [], processing = False\<rparr>)\<rparr>
      in if ws \<in> closed s1 then (client_id, cleanup_client s1 client_id)
         else (client_id, s1\<lparr>wire := wire s1 @ [(ws, ConnectionEstablished client_id)]\<rparr>))"

section \<open>Status\<close>

definition handle_get_status :: "server \<Rightarrow> string \<Rightarrow> server" where
  "handle_get_status s client_id =
     (case clients s client_id of
        None \<Rightarrow> send_error s client_id ClientNotFound
      | Some c \<Rightarrow>
          send_message s client_id
            (Status client_id (avatar_id c \<noteq> None) (avatar_id c)
               (length (audio_queue c)) (processing c)))"

section \<open>Execution contexts and task scheduling\<close>

text \<open>
  Code runs either on the thread of the event loop or on a thread started with
  \<^verbatim>\<open>threading.Thread\<close>. \<^verbatim>\<open>asyncio.create_task(coro)\<close> schedules the coroutine on the
  loop running in the current thread: it calls \<^verbatim>\<open>get_running_loop()\<close>, which raises
  \<^verbatim>\<open>RuntimeError\<close> in a thread where no loop is running. The coroutines handed to it in
  this server are \<^verbatim>\<open>send_message(client_id, message)\<close> and
  \<^verbatim>\<open>send_error(client_id, text)\<close>, which is \<open>send_message\<close> of an error event.
\<close>

datatype ctx = EventLoop | WorkerThread

datatype task = SendMessage string outbound

fun create_task :: "ctx \<Rightarrow> task \<Rightarrow> task list \<Rightarrow> exc + task list" where
  "create_task EventLoop coro pending = Inr (pending @ [coro])"
| "create_task WorkerThread coro pending = Inl RuntimeError"

section \<open>Avatar initialization\<close>

text \<open>\<^verbatim>\<open>base64.b64decode\<close> on a JSON value: only a text can be decoded.\<close>

definition b64decode_json :: "lib \<Rightarrow> json \<Rightarrow> exc + bytes" where
  "b64decode_json L v =
     (case v of
        JStr x \<Rightarrow> (case b64decode L x of None \<Rightarrow> Inl BinasciiError | Some b \<Rightarrow> Inr b)
      | _ \<Rightarrow> Inl TypeError)"

text \<open>
  \<^verbatim>\<open>os.path.exists\<close> on a JSON value: a path, or an integer taken as a file descriptor,
  which must fit a C \<^verbatim>\<open>int\<close> (\<^verbatim>\<open>OverflowError\<close> otherwise, which \<^verbatim>\<open>exists\<close> does not
  catch).
\<close>

definition path_exists :: "lib \<Rightarrow> server \<Rightarrow> json \<Rightarrow> exc + bool" where
  "path_exists L s p =
     (case p of
        JStr x \<Rightarrow> Inr (x \<in> files s)
      | JNum n \<Rightarrow>
          if - 2147483648 \<le> n \<and> n \<le> 2147483647 then Inr (fd_open L n)
          else Inl OverflowError
      | JBool b \<Rightarrow> Inr (fd_open L (if b then 1 else 0))
      | _ \<Rightarrow> Inl TypeError)"

text \<open>
  \<^verbatim>\<open>handle_initialize_avatar\<close>, the part that runs on the event loop. \<open>temp_name\<close> is the
  name \<^verbatim>\<open>NamedTemporaryFile\<close> gives the file it creates, \<open>now_s\<close> the value of
  \<^verbatim>\<open>int(time.time())\<close>. The result is the new state and the threads started.
\<close>

definition handle_initialize_avatar ::
  "lib \<Rightarrow> server \<Rightarrow> string \<Rightarrow> json \<Rightarrow> string \<Rightarrow> int \<Rightarrow> server \<times> thread list" where
  "handle_initialize_avatar L s client_id data temp_name now_s =
     (case dict_get data ''avatar_video_data'' of
        Inl e \<Rightarrow> (send_error s client_id (ErrorInitializingAvatar e), [])
      | Inr video_data_field \<Rightarrow>
     (case dict_get data ''avatar_video_path'' of
        Inl e \<Rightarrow> (send_error s client_id (ErrorInitializingAvatar e), [])
      | Inr video_path_field \<Rightarrow>
     (case dict_get_default data ''version'' (JStr ''v15'') of
        Inl e \<Rightarrow> (send_error s client_id (ErrorInitializingAvatar e), [])
      | Inr version_field \<Rightarrow>
          if \<not> truthy video_data_field \<and> \<not> truthy video_path_field then
            (send_error s client_id EitherDataOrPathMustBeProvided, [])
          else
            (case (if truthy video_data_field then
                     (case b64decode_json L video_data_field of
                        Inl e \<Rightarrow> Inl e
                      | Inr video_data \<Rightarrow>
                          Inr (JStr temp_name, s\<lparr>files := insert temp_name (files s)\<rparr>))
                   else Inr (video_path_field, s)) of
               Inl e \<Rightarrow> (send_error s client_id (ErrorInitializingAvatar e), [])
             | Inr (path, s1) \<Rightarrow>
                 (case path_exists L s1 path of
                    Inl e \<Rightarrow> (send_error s1 client_id (ErrorInitializingAvatar e), [])
                  | Inr found \<Rightarrow>
                      if \<not> found then (send_error s1 client_id (AvatarVideoNotFound path), [])
                      else
                        let aid = ''avatar_'' @ client_id @ ''_'' @ str_int now_s
                        in (send_message s1 client_id (AvatarInitializationStarted aid),
                            [InitializeAvatar client_id aid path version_field]))))))"

text \<open>
  What the external steps of the initialization thread produce: the constructor
  \<^verbatim>\<open>MuseTalkWrapper(...)\<close> or \<^verbatim>\<open>prepare_avatar_realtime()\<close> raises, or the wrapper is
  built (its temporary directory created) and the preparation returns a truth value.
\<close>

datatype init_result = InitRaised exc | Prepared wrapper bool

text \<open>
  The thread function \<^verbatim>\<open>initialize_avatar\<close> (lines 120 to 145), run in context \<open>c\<close>.
  The first component is the scheduled tasks, or the exception that leaves the function.

  Storing the wrapper under an id the table already holds drops the table's reference
  to the wrapper stored before; that object is collected, and its destructor runs,
  unless a drain worker still holds it (\<open>in_use\<close>). When the preparation fails the new
  wrapper is referenced by the thread function alone and is collected when the thread
  ends.
\<close>

definition initialize_avatar ::
  "ctx \<Rightarrow> server \<Rightarrow> string \<Rightarrow> string \<Rightarrow> bool \<Rightarrow> init_result \<Rightarrow> task list
     \<Rightarrow> (exc + task list) \<times> server" where
  "initialize_avatar c s client_id aid in_use res pending =
     (case res of
        InitRaised e \<Rightarrow>
          (create_task c (SendMessage client_id (ErrorEvent (AvatarInitializationError e))) pending, s)
      | Prepared w success \<Rightarrow>
          let s0 = s\<lparr>files := insert (temp_dir w) (files s)\<rparr> in
          if success then
            let s1 = (case avatars s0 aid of
                        None \<Rightarrow> s0
                      | Some old \<Rightarrow> if in_use then s0 else wrapper_del old s0)
                     \<lparr>avatars := (avatars s0)(aid \<mapsto> w)\<rparr> in
            (case clients s1 client_id of
               None \<Rightarrow>
                 (create_task c
                    (SendMessage client_id (ErrorEvent (AvatarInitializationError KeyError))) pending,
                  s1)
             | Some cl \<Rightarrow>
                 let s2 = s1\<lparr>clients := (clients s1)(client_id \<mapsto> cl\<lparr>avatar_id := Some aid\<rparr>)\<rparr>
                 in (case create_task c (SendMessage client_id (AvatarInitialized aid)) pending of
                       Inr p \<Rightarrow> (Inr p, s2)
                     | Inl e \<Rightarrow>
                         (create_task c
                            (SendMessage client_id (ErrorEvent (AvatarInitializationError e))) pending,
                          s2)))
          else
            (case create_task c (SendMessage client_id (ErrorEvent FailedToInitializeAvatar)) pending of
               Inr p \<Rightarrow> (Inr p, wrapper_del w s0)
             | Inl e \<Rightarrow>
                 (create_task c
                    (SendMessage client_id (ErrorEvent (AvatarInitializationError e))) pending,
                  wrapper_del w s0)))"

section \<open>Audio chunks\<close>

text \<open>
  \<^verbatim>\<open>handle_audio_chunk\<close>, lines 156 to 171: the checks before the chunk is queued. The
  result is the text of the error to send, or the bound avatar id and the decoded bytes.
\<close>

definition audio_chunk_checks :: "lib \<Rightarrow> server \<Rightarrow> string \<Rightarrow> json \<Rightarrow> errmsg + (string \<times> bytes)" where
  "audio_chunk_checks L s client_id data =
     (case clients s client_id of
        None \<Rightarrow> Inl ClientNotFound
      | Some c \<Rightarrow>
          (case avatar_id c of
             None \<Rightarrow> Inl AvatarNotInitialized
           | Some aid \<Rightarrow>
               if aid = [] \<or> avatars s aid = None then Inl AvatarNotInitialized
               else
                 (case dict_get data ''audio_data'' of
                    Inl e \<Rightarrow> Inl (ErrorHandlingAudioChunk e)
                  | Inr audio_data \<Rightarrow>
                      if \<not> truthy audio_data then Inl NoAudioDataProvided
                      else
                        (case b64decode_json L audio_data of
                           Inl e \<Rightarrow> Inl (ErrorHandlingAudioChunk e)
                         | Inr audio_bytes \<Rightarrow> Inr (aid, audio_bytes)))))"

text \<open>\<^verbatim>\<open>self.clients[client_id]['audio_queue'].put(audio_bytes)\<close>.\<close>

definition queue_put :: "server \<Rightarrow> string \<Rightarrow> bytes \<Rightarrow> server" where
  "queue_put s client_id audio_bytes =
     (case clients s client_id of
        None \<Rightarrow> s
      | Some c \<Rightarrow>
          s\<lparr>clients := (clients s)(client_id \<mapsto> c\<lparr>audio_queue := audio_queue c @ [audio_bytes]\<rparr>)\<rparr>)"

text \<open>\<^verbatim>\<open>self.clients[client_id]['processing'] = b\<close>.\<close>

definition set_processing :: "server \<Rightarrow> string \<Rightarrow> bool \<Rightarrow> server" where
  "set_processing s client_id b =
     (case clients s client_id of
        None \<Rightarrow> s
      | Some c \<Rightarrow> s\<lparr>clients := (clients s)(client_id \<mapsto> c\<lparr>processing := b\<rparr>)\<rparr>)"

text \<open>
  \<^verbatim>\<open>handle_audio_chunk\<close> as one uninterrupted run on the event loop: the new state and
  the threads started.
\<close>

definition handle_audio_chunk :: "lib \<Rightarrow> server \<Rightarrow> string \<Rightarrow> json \<Rightarrow> server \<times> thread list" where
  "handle_audio_chunk L s client_id data =
     (case audio_chunk_checks L s client_id data of
        Inl m \<Rightarrow> (send_error s client_id m, [])
      | Inr (aid, audio_bytes) \<Rightarrow>
          let s1 = queue_put s client_id audio_bytes in
          (case clients s1 client_id of
             None \<Rightarrow> (send_error s1 client_id (ErrorHandlingAudioChunk KeyError), [])
           | Some c \<Rightarrow>
               if \<not> processing c then
                 (send_message (set_processing s1 client_id True) client_id AudioReceived,
                  [ProcessAudioQueue client_id aid])
               else (send_message s1 client_id AudioReceived, [])))"

section \<open>Message router\<close>

text \<open>
  \<^verbatim>\<open>handle_message\<close>. The message is given by what \<^verbatim>\<open>json.loads\<close> makes of it: the
  exception it raises (\<^verbatim>\<open>JSONDecodeError\<close> on a text that is not JSON,
  \<^verbatim>\<open>UnicodeDecodeError\<close> on a binary frame that is not UTF-8, \<^verbatim>\<open>RecursionError\<close> on
  deep nesting), or the decoded value. \<^verbatim>\<open>JSONDecodeError\<close> has its own handler; every
  other exception goes to \<^verbatim>\<open>except Exception\<close>.
\<close>

definition handle_message ::
  "lib \<Rightarrow> server \<Rightarrow> string \<Rightarrow> exc + json \<Rightarrow> string \<Rightarrow> int \<Rightarrow> server \<times> thread list" where
  "handle_message L s client_id message temp_name now_s =
     (case message of
        Inl e \<Rightarrow>
          if e = JSONDecodeError then (send_error s client_id InvalidJSONMessage, [])
          else (send_error s client_id (ErrorProcessingMessage e), [])
      | Inr data \<Rightarrow>
          (case dict_get data ''type'' of
             Inl e \<Rightarrow> (send_error s client_id (ErrorProcessingMessage e), [])
           | Inr message_type \<Rightarrow>
               if message_type = JStr ''initialize_avatar'' then
                 handle_initialize_avatar L s client_id data temp_name now_s
               else if message_type = JStr ''audio_chunk'' then
                 handle_audio_chunk L s client_id data
               else if message_type = JStr ''get_status'' then
                 (handle_get_status s client_id, [])
               else (send_error s client_id (UnknownMessageType message_type), [])))"

text \<open>
  One iteration of the message loop of \<^verbatim>\<open>register_client\<close> (lines 53 to 54), for the
  connection \<open>ws\<close> that was registered as \<open>client_id\<close>: the message read from \<open>ws\<close> goes to
  \<open>handle_message\<close> with the id. The connection itself is not passed on.
\<close>

definition receive_message ::
  "lib \<Rightarrow> server \<Rightarrow> nat \<Rightarrow> string \<Rightarrow> exc + json \<Rightarrow> string \<Rightarrow> int \<Rightarrow> server \<times> thread list" where
  "receive_message L s ws client_id message temp_name now_s =
     handle_message L s client_id message temp_name now_s"

section \<open>The drain worker\<close>

text \<open>
  What the external steps of one iteration of the worker's loop produce: the temporary
  file, the WAV conversion, the generation call or the read of the video raises, or
  \<^verbatim>\<open>generate_video_from_audio\<close> returns. \<open>Generated (Some v)\<close> is a path to an existing
  file whose content is \<open>v\<close>; \<open>Generated None\<close> is \<^verbatim>\<open>None\<close> or a path that does not
  exist.
\<close>

datatype outcome = Raised exc | Generated "bytes option"

text \<open>
  The body of the loop of \<^verbatim>\<open>process_audio_queue\<close> after the chunk was taken (lines 203 to
  240), run in context \<open>c\<close> at clock reading \<open>ts\<close>. An exception of the \<^verbatim>\<open>try\<close> block
  goes to \<^verbatim>\<open>except Exception\<close>, which schedules an error event; an exception raised
  there leaves the loop. The result is the pending tasks of the event loop, or the
  exception that leaves the loop.
\<close>

definition loop_body :: "lib \<Rightarrow> ctx \<Rightarrow> string \<Rightarrow> outcome \<Rightarrow> rat \<Rightarrow> task list \<Rightarrow> exc + task list" where
  "loop_body L c client_id out ts pending =
     (case (case out of
              Raised e \<Rightarrow> Inl e
            | Generated (Some video_data) \<Rightarrow>
                create_task c (SendMessage client_id (VideoChunk (b64encode L video_data) ts)) pending
            | Generated None \<Rightarrow>
                create_task c (SendMessage client_id (ErrorEvent FailedToGenerateVideo)) pending) of
        Inr p \<Rightarrow> Inr p
      | Inl e \<Rightarrow>
          create_task c (SendMessage client_id (ErrorEvent (AudioProcessingError e))) pending)"

section \<open>One session's audio pipeline as a transition system\<close>

text \<open>
  The event loop and the worker threads run concurrently, so the statements of
  \<^verbatim>\<open>handle_audio_chunk\<close> after the checks and the statements of
  \<^verbatim>\<open>process_audio_queue\<close> interleave. The position of the event loop inside
  \<^verbatim>\<open>handle_audio_chunk\<close> for the session, with the avatar id it holds:
  \<^item> \<open>Idle\<close>: not inside the handler;
  \<^item> \<open>AfterPut\<close>: the chunk is queued (line 174), the flag not yet read;
  \<^item> \<open>DoSet\<close>: the flag was read as false (line 177), not yet set;
  \<^item> \<open>DoSpawn\<close>: the flag is set (line 178), the thread not yet started.
  One connection's messages are handled one after the other, so there is one position.

  The steps are those of one session's pipeline: the arrival of its chunks, the
  statements of its handler, the tasks of the loop and the statements of its threads.
  Teardown of the session is not a step, so the queue a thread drains is the one in the
  session's registry entry.
\<close>

datatype loop_pc = Idle | AfterPut string | DoSet string | DoSpawn string

text \<open>
  The position of a thread running \<^verbatim>\<open>process_audio_queue\<close>:
  \<^item> \<open>WStart\<close>: before line 196;
  \<^item> \<open>WLoop\<close>: at the loop test \<^verbatim>\<open>audio_queue.empty()\<close> (line 199);
  \<^item> \<open>WGet\<close>: at \<^verbatim>\<open>audio_queue.get(timeout=1)\<close> (line 201);
  \<^item> \<open>WBody\<close>: holding a chunk, before the rest of the loop body;
  \<^item> \<open>WFinally\<close>: at the \<^verbatim>\<open>finally\<close> clause (line 245);
  \<^item> \<open>WDone\<close>: returned.
\<close>

datatype worker_pc = WStart | WLoop | WGet | WBody bytes | WFinally | WDone

record worker =
  w_avatar :: string
  w_pc :: worker_pc

record config =
  srv :: server
  handler :: loop_pc
  threads :: "worker list"
  pending :: "task list"

text \<open>
  A scheduling decision:
  \<^item> \<open>Receive data\<close>: the event loop takes the session's next \<^verbatim>\<open>audio_chunk\<close> message
    and runs the handler through the checks and the \<^verbatim>\<open>put\<close>;
  \<^item> \<open>Loop\<close>: the event loop runs the handler's next statement;
  \<^item> \<open>RunTask\<close>: the idle event loop runs its first pending task;
  \<^item> \<open>Thread i out ts\<close>: thread \<open>i\<close> runs its next statement; \<open>out\<close> and \<open>ts\<close> are what
    the external steps and the clock give when that statement is the loop body.
  A decision that is not enabled leaves the configuration as it is.
\<close>

datatype label = Receive json | Loop | RunTask | Thread nat outcome rat

definition receive_step :: "lib \<Rightarrow> string \<Rightarrow> json \<Rightarrow> config \<Rightarrow> config" where
  "receive_step L cid data cfg =
     (case handler cfg of
        Idle \<Rightarrow>
          (case audio_chunk_checks L (srv cfg) cid data of
             Inl m \<Rightarrow> cfg\<lparr>srv := send_error (srv cfg) cid m\<rparr>
           | Inr (aid, audio_bytes) \<Rightarrow>
               cfg\<lparr>srv := queue_put (srv cfg) cid audio_bytes, handler := AfterPut aid\<rparr>)
      | _ \<Rightarrow> cfg)"

definition loop_step :: "string \<Rightarrow> config \<Rightarrow> config" where
  "loop_step cid cfg =
     (case handler cfg of
        Idle \<Rightarrow> cfg
      | AfterPut aid \<Rightarrow>
          (case clients (srv cfg) cid of
             None \<Rightarrow>
               cfg\<lparr>srv := send_error (srv cfg) cid (ErrorHandlingAudioChunk KeyError),
                   handler := Idle\<rparr>
           | Some c \<Rightarrow>
               if \<not> processing c then cfg\<lparr>handler := DoSet aid\<rparr>
               else cfg\<lparr>srv := send_message (srv cfg) cid AudioReceived, handler := Idle\<rparr>)
      | DoSet aid \<Rightarrow> cfg\<lparr>srv := set_processing (srv cfg) cid True, handler := DoSpawn aid\<rparr>
      | DoSpawn aid \<Rightarrow>
          cfg\<lparr>threads := threads cfg @ [\<lparr>w_avatar = aid, w_pc = WStart\<rparr>],
              srv := send_message (srv cfg) cid AudioReceived,
              handler := Idle\<rparr>)"

definition task_step :: "config \<Rightarrow> config" where
  "task_step cfg =
     (case handler cfg of
        Idle \<Rightarrow>
          (case pending cfg of
             [] \<Rightarrow> cfg
           | SendMessage c m # rest \<Rightarrow> cfg\<lparr>srv := send_message (srv cfg) c m, pending := rest\<rparr>)
      | _ \<Rightarrow> cfg)"

text \<open>
  One statement of \<^verbatim>\<open>process_audio_queue\<close> by the thread \<open>w\<close>: the thread's new position,
  the state and the pending tasks. A \<^verbatim>\<open>KeyError\<close> at the start and an exception leaving
  the loop go through the outer \<^verbatim>\<open>except\<close> (which logs) to the \<^verbatim>\<open>finally\<close> clause;
  \<^verbatim>\<open>get\<close> on an empty queue raises \<^verbatim>\<open>queue.Empty\<close> when its timeout expires, and the
  loop is left by \<^verbatim>\<open>break\<close>. The thread is started with \<^verbatim>\<open>threading.Thread\<close>, so its
  context is \<open>WorkerThread\<close>.
\<close>

definition worker_step ::
  "lib \<Rightarrow> string \<Rightarrow> worker \<Rightarrow> outcome \<Rightarrow> rat \<Rightarrow> server \<Rightarrow> task list
     \<Rightarrow> worker \<times> server \<times> task list" where
  "worker_step L cid w out ts s p =
     (case w_pc w of
        WStart \<Rightarrow>
          (case avatars s (w_avatar w) of
             None \<Rightarrow> (w\<lparr>w_pc := WFinally\<rparr>, s, p)
           | Some wr \<Rightarrow>
               (case clients s cid of
                  None \<Rightarrow> (w\<lparr>w_pc := WFinally\<rparr>, s, p)
                | Some c \<Rightarrow> (w\<lparr>w_pc := WLoop\<rparr>, s, p)))
      | WLoop \<Rightarrow>
          (case clients s cid of
             None \<Rightarrow> (w\<lparr>w_pc := WFinally\<rparr>, s, p)
           | Some c \<Rightarrow>
               if audio_queue c \<noteq> [] then (w\<lparr>w_pc := WGet\<rparr>, s, p)
               else (w\<lparr>w_pc := WFinally\<rparr>, s, p))
      | WGet \<Rightarrow>
          (case clients s cid of
             None \<Rightarrow> (w\<lparr>w_pc := WFinally\<rparr>, s, p)
           | Some c \<Rightarrow>
               (case audio_queue c of
                  [] \<Rightarrow> (w\<lparr>w_pc := WFinally\<rparr>, s, p)
                | audio_bytes # rest \<Rightarrow>
                    (w\<lparr>w_pc := WBody audio_bytes\<rparr>,
                     s\<lparr>clients := (clients s)(cid \<mapsto> c\<lparr>audio_queue := rest\<rparr>)\<rparr>, p)))
      | WBody audio_bytes \<Rightarrow>
          (case loop_body L WorkerThread cid out ts p of
             Inr p' \<Rightarrow> (w\<lparr>w_pc := WLoop\<rparr>, s, p')
           | Inl e \<Rightarrow> (w\<lparr>w_pc := WFinally\<rparr>, s, p))
      | WFinally \<Rightarrow> (w\<lparr>w_pc := WDone\<rparr>, set_processing s cid False, p)
      | WDone \<Rightarrow> (w, s, p))"

definition thread_step :: "lib \<Rightarrow> string \<Rightarrow> nat \<Rightarrow> outcome \<Rightarrow> rat \<Rightarrow> config \<Rightarrow> config" where
  "thread_step L cid i out ts cfg =
     (if i < length (threads cfg) then
        (case worker_step L cid (threads cfg ! i) out ts (srv cfg) (pending cfg) of
           (w', s', p') \<Rightarrow> cfg\<lparr>threads := (threads cfg)[i := w'], srv := s', pending := p'\<rparr>)
      else cfg)"

fun exec :: "lib \<Rightarrow> string \<Rightarrow> label \<Rightarrow> config \<Rightarrow> config" where
  "exec L cid (Receive data) cfg = receive_step L cid data cfg"
| "exec L cid Loop cfg = loop_step cid cfg"
| "exec L cid RunTask cfg = task_step cfg"
| "exec L cid (Thread i out ts) cfg = thread_step L cid i out ts cfg"

fun run :: "lib \<Rightarrow> string \<Rightarrow> label list \<Rightarrow> config \<Rightarrow> config" where
  "run L cid [] cfg = cfg"
| "run L cid (l # ls) cfg = run L cid ls (exec L cid l cfg)"

text \<open>The pipeline at rest: the handler idle, no thread, no pending task.\<close>

definition start :: "server \<Rightarrow> config" where
  "start s = \<lparr>srv = s, handler = Idle, threads = [], pending = []\<rparr>"

text \<open>A thread that has not returned; a thread inside the loop body, where it generates.\<close>

definition live :: "worker \<Rightarrow> bool" where
  "live w = (w_pc w \<noteq> WDone)"

definition generating :: "worker \<Rightarrow> bool" where
  "generating w = (case w_pc w of WBody b \<Rightarrow> True | _ \<Rightarrow> False)"

section \<open>Observations on configurations\<close>

text \<open>The session's busy flag, and the handler's position as a predicate.\<close>

definition busy :: "string \<Rightarrow> config \<Rightarrow> bool" where
  "busy cid cfg = (case clients (srv cfg) cid of None \<Rightarrow> False | Some c \<Rightarrow> processing c)"

definition spawning :: "config \<Rightarrow> bool" where
  "spawning cfg = (case handler cfg of DoSpawn a \<Rightarrow> True | _ \<Rightarrow> False)"

definition setting :: "config \<Rightarrow> bool" where
  "setting cfg = (case handler cfg of DoSet a \<Rightarrow> True | _ \<Rightarrow> False)"

text \<open>
  The invariant behind the busy flag: the session is registered; the number of threads
  that have not returned, plus one when the handler has set the flag and not yet started
  the thread, is one when the flag is set and zero when it is clear; and the handler is
  about to set the flag only while it is clear.
\<close>

definition one_worker :: "string \<Rightarrow> config \<Rightarrow> bool" where
  "one_worker cid cfg =
     (clients (srv cfg) cid \<noteq> None
      \<and> length (filter live (threads cfg)) + (if spawning cfg then 1 else 0)
          = (if busy cid cfg then 1 else 0)
      \<and> (setting cfg \<longrightarrow> \<not> busy cid cfg))"

text \<open>
  The events a worker sends for a chunk: the video, or one of the two errors of the loop
  body. \<open>results_on_wire\<close> lists those written to connections so far.
\<close>

fun result_event :: "outbound \<Rightarrow> bool" where
  "result_event (VideoChunk v t) = True"
| "result_event (ErrorEvent FailedToGenerateVideo) = True"
| "result_event (ErrorEvent (AudioProcessingError e)) = True"
| "result_event _ = False"

definition results_on_wire :: "server \<Rightarrow> outbound list" where
  "results_on_wire s = filter result_event (map snd (wire s))"

definition quiet :: "outbound list \<Rightarrow> config \<Rightarrow> bool" where
  "quiet rs cfg = (pending cfg = [] \<and> results_on_wire (srv cfg) = rs)"

text \<open>The thread of the transition system that a started thread of a handler is.\<close>

fun worker_of :: "thread \<Rightarrow> worker list" where
  "worker_of (ProcessAudioQueue c a) = [\<lparr>w_avatar = a, w_pc = WStart\<rparr>]"
| "worker_of (InitializeAvatar c a p v) = []"

section \<open>Example inputs\<close>

text \<open>Concrete states and messages, used to evaluate the definitions.\<close>

definition lib0 :: lib where
  "lib0 = \<lparr>b64decode = (\<lambda>x. Some x), b64encode = (\<lambda>b. b), fd_open = (\<lambda>n. False)\<rparr>"

definition demo_wrapper :: wrapper where
  "demo_wrapper = \<lparr>avatar_video_path = ''/v/a.mp4'', version = JStr ''v15'',
     temp_dir = ''/tmp/w1'', avatar_prepared = True\<rparr>"

definition other_wrapper :: wrapper where
  "other_wrapper = \<lparr>avatar_video_path = ''/v/b.mp4'', version = JStr ''v15'',
     temp_dir = ''/tmp/w2'', avatar_prepared = True\<rparr>"

definition demo_client :: client where
  "demo_client = \<lparr>websocket = 1, avatar_id = Some ''avatar_client_5_7'', audio_queue = [],
     processing = False\<rparr>"

definition fresh_client :: client where
  "fresh_client = \<lparr>websocket = 1, avatar_id = None, audio_queue = [], processing = False\<rparr>"

definition empty_server :: server where
  "empty_server = \<lparr>clients = Map.empty, avatars = Map.empty, closed = {}, wire = [],
     files = {''/v/a.mp4''}, locked = {}\<rparr>"

definition fresh_server :: server where
  "fresh_server = empty_server\<lparr>clients := [''client_5'' \<mapsto> fresh_client]\<rparr>"

definition demo_server :: server where
  "demo_server = \<lparr>clients = [''client_5'' \<mapsto> demo_client],
     avatars = [''avatar_client_5_7'' \<mapsto> demo_wrapper],
     closed = {}, wire = [], files = {''/tmp/w1'', ''/v/a.mp4''}, locked = {}\<rparr>"

definition chunk :: "string \<Rightarrow> json" where
  "chunk a = JDict [(''type'', JStr ''audio_chunk''), (''audio_data'', JStr a)]"

definition both_fields :: json where
  "both_fields = JDict [(''type'', JStr ''initialize_avatar''),
     (''avatar_video_data'', JStr ''QUJD''), (''avatar_video_path'', JStr ''/v/a.mp4'')]"

definition no_fields :: json where
  "no_fields = JDict [(''type'', JStr ''initialize_avatar'')]"

definition path_only :: json where
  "path_only = JDict [(''type'', JStr ''initialize_avatar''),
     (''avatar_video_path'', JStr ''/v/a.mp4'')]"

text \<open>A generation that succeeds, and schedules of the pipeline.\<close>

definition ok :: outcome where
  "ok = Generated (Some ''video'')"

text \<open>The handler has set the flag for the first chunk and not yet started the thread.\<close>

definition spawn_trace :: "label list" where
  "spawn_trace = [Receive (chunk ''a''), Loop, Loop]"

text \<open>The worker holds the first chunk and generates.\<close>

definition busy_trace :: "label list" where
  "busy_trace = [Receive (chunk ''a''), Loop, Loop, Loop, Thread 0 ok 1, Thread 0 ok 1, Thread 0 ok 1]"

text \<open>One chunk, handled to the end.\<close>

definition one_chunk_trace :: "label list" where
  "one_chunk_trace =
     [Receive (chunk ''a''), Loop, Loop, Loop,
      Thread 0 ok 1, Thread 0 ok 1, Thread 0 ok 1, Thread 0 ok 2, Thread 0 ok 2, RunTask]"

text \<open>A second chunk arrives while the worker generates for the first.\<close>

definition strand_trace :: "label list" where
  "strand_trace =
     [Receive (chunk ''a''), Loop, Loop, Loop,
      Thread 0 ok 1, Thread 0 ok 1, Thread 0 ok 1,
      Receive (chunk ''b''), Loop,
      Thread 0 ok 2, Thread 0 ok 2]"

text \<open>
  Three chunks: the first is handled to the end, the second starts a new worker, the
  third arrives before that worker runs.
\<close>

definition three_chunks_trace :: "label list" where
  "three_chunks_trace =
     [Receive (chunk ''a''), Loop, Loop, Loop,
      Thread 0 ok 1, Thread 0 ok 1, Thread 0 ok 1, Thread 0 ok 2, Thread 0 ok 2,
      Receive (chunk ''b''), Loop, Loop, Loop,
      Receive (chunk ''c''), Loop,
      Thread 1 ok 3, Thread 1 ok 3, Thread 1 ok 3, Thread 1 ok 4, Thread 1 ok 4,
      RunTask]"

section \<open>Properties of teardown\<close>

lemma cleanup_fields [simp]:
  "clients (cleanup w s) = clients s"
  "avatars (cleanup w s) = avatars s"
  "wire (cleanup w s) = wire s"
  "closed (cleanup w s) = closed s"
  "locked (cleanup w s) = locked s"
  by (simp_all add: cleanup_def)

lemma cleanup_removes: "temp_dir w \<notin> locked s \<Longrightarrow> temp_dir w \<notin> files (cleanup w s)"
  by (simp add: cleanup_def)

lemma cleanup_client_absent: "clients s cid = None \<Longrightarrow> cleanup_client s cid = s"
  by (simp add: cleanup_client_def)

lemma cleanup_client_removes: "clients (cleanup_client s cid) cid = None"
  by (simp add: cleanup_client_def Let_def split: option.splits)

lemma cleanup_client_wire: "wire (cleanup_client s cid) = wire s"
  by (simp add: cleanup_client_def Let_def split: option.splits)

lemma cleanup_client_bound:
  assumes "clients s cid = Some c" "avatar_id c = Some aid" "aid \<noteq> []" "avatars s aid = Some w"
  shows "avatars (cleanup_client s cid) aid = None"
    and "temp_dir w \<notin> locked s \<Longrightarrow> temp_dir w \<notin> files (cleanup_client s cid)"
  using assms by (simp_all add: cleanup_client_def Let_def cleanup_removes)

lemma cleanup_client_unbound:
  assumes "clients s cid = Some c" "avatar_id c = None"
  shows "avatars (cleanup_client s cid) = avatars s"
    and "files (cleanup_client s cid) = files s"
  using assms by (simp_all add: cleanup_client_def Let_def)

text \<open>
  C10. Session destruction is idempotent. A second \<open>cleanup_client\<close> for the same id
  returns the state unchanged (registry, avatar table and everything else); the first
  one removes the registry entry, writes nothing to any connection, and, when an avatar
  is bound, calls its \<open>cleanup\<close> (the temporary directory is gone unless \<open>rmtree\<close>
  fails on it) and deletes it from the avatar table; for a session that never bound an
  avatar the avatar table and the file system are left as they were. The function has
  no exceptional result: every failure inside is caught.
\<close>

theorem cleanup_client_idempotent:
  "cleanup_client (cleanup_client s cid) cid = cleanup_client s cid
   \<and> clients (cleanup_client s cid) cid = None
   \<and> wire (cleanup_client s cid) = wire s
   \<and> (\<forall>c aid w. clients s cid = Some c \<and> avatar_id c = Some aid \<and> aid \<noteq> []
          \<and> avatars s aid = Some w \<longrightarrow>
        avatars (cleanup_client s cid) aid = None
        \<and> (temp_dir w \<notin> locked s \<longrightarrow> temp_dir w \<notin> files (cleanup_client s cid)))
   \<and> (\<forall>c. clients s cid = Some c \<and> avatar_id c = None \<longrightarrow>
        avatars (cleanup_client s cid) = avatars s
        \<and> files (cleanup_client s cid) = files s)"
proof (intro conjI allI impI)
  show "cleanup_client (cleanup_client s cid) cid = cleanup_client s cid"
    by (rule cleanup_client_absent) (rule cleanup_client_removes)
  show "clients (cleanup_client s cid) cid = None"
    by (rule cleanup_client_removes)
  show "wire (cleanup_client s cid) = wire s"
    by (rule cleanup_client_wire)
next
  fix c aid w
  assume "clients s cid = Some c \<and> avatar_id c = Some aid \<and> aid \<noteq> [] \<and> avatars s aid = Some w"
  then show "avatars (cleanup_client s cid) aid = None"
    by (simp add: cleanup_client_bound(1))
next
  fix c aid w
  assume "clients s cid = Some c \<and> avatar_id c = Some aid \<and> aid \<noteq> [] \<and> avatars s aid = Some w"
    and "temp_dir w \<notin> locked s"
  then show "temp_dir w \<notin> files (cleanup_client s cid)"
    using cleanup_client_bound(2) by blast
next
  fix c
  assume "clients s cid = Some c \<and> avatar_id c = None"
  then show "avatars (cleanup_client s cid) = avatars s"
    and "files (cleanup_client s cid) = files s"
    by (simp_all add: cleanup_client_unbound)
qed

theorem cleanup_client_idempotent_witness:
  "clients demo_server ''client_5'' = Some demo_client
   \<and> avatar_id demo_client = Some ''avatar_client_5_7''
   \<and> avatars demo_server ''avatar_client_5_7'' = Some demo_wrapper
   \<and> temp_dir demo_wrapper \<notin> locked demo_server
   \<and> avatars (cleanup_client demo_server ''client_5'') ''avatar_client_5_7'' = None
   \<and> temp_dir demo_wrapper \<notin> files (cleanup_client demo_server ''client_5'')
   \<and> clients fresh_server ''client_5'' = Some fresh_client
   \<and> avatar_id fresh_client = None
   \<and> avatars (cleanup_client fresh_server ''client_5'') = avatars fresh_server
   \<and> files (cleanup_client fresh_server ''client_5'') = files fresh_server
   \<and> cleanup_client (cleanup_client demo_server ''client_5'') ''client_5''
       = cleanup_client demo_server ''client_5''"
proof -
  have a: "clients demo_server ''client_5'' = Some demo_client
      \<and> avatar_id demo_client = Some ''avatar_client_5_7'' \<and> ''avatar_client_5_7'' \<noteq> []
      \<and> avatars demo_server ''avatar_client_5_7'' = Some demo_wrapper"
    by (simp add: demo_server_def demo_client_def)
  have b: "temp_dir demo_wrapper \<notin> locked demo_server"
    by (simp add: demo_server_def)
  have c: "clients fresh_server ''client_5'' = Some fresh_client \<and> avatar_id fresh_client = None"
    by (simp add: fresh_server_def fresh_client_def)
  show ?thesis
    using a b c cleanup_client_idempotent [of demo_server "''client_5''"]
      cleanup_client_idempotent [of fresh_server "''client_5''"]
    by blast
qed

section \<open>Properties of sending\<close>

lemma send_message_fields [simp]:
  "clients (send_message s cid m) = clients s"
  "avatars (send_message s cid m) = avatars s"
  "closed (send_message s cid m) = closed s"
  "files (send_message s cid m) = files s"
  "locked (send_message s cid m) = locked s"
  by (simp_all add: send_message_def split: option.splits)

lemma send_error_fields [simp]:
  "clients (send_error s cid m) = clients s"
  "avatars (send_error s cid m) = avatars s"
  "closed (send_error s cid m) = closed s"
  "files (send_error s cid m) = files s"
  "locked (send_error s cid m) = locked s"
  by (simp_all add: send_error_def)

lemma send_error_wire:
  "wire (send_error s cid m) =
     (case clients s cid of
        None \<Rightarrow> wire s
      | Some c \<Rightarrow> if websocket c \<in> closed s then wire s
                  else wire s @ [(websocket c, ErrorEvent m)])"
  by (simp add: send_error_def send_message_def split: option.splits)

section \<open>Session identifiers\<close>

lemma digit_char_inj: "a < 10 \<Longrightarrow> b < 10 \<Longrightarrow> digit_char a = digit_char b \<Longrightarrow> a = b"
proof -
  assume "a < 10" "b < 10" "digit_char a = digit_char b"
  moreover have "distinct ''0123456789''" by simp
  ultimately show ?thesis
    unfolding digit_char_def by (subst (asm) nth_eq_iff_index_eq) simp_all
qed

lemma digit_char_not_minus: "d < 10 \<Longrightarrow> digit_char d \<noteq> CHR ''-''"
proof -
  assume "d < 10"
  then have "digit_char d \<in> set ''0123456789''"
    unfolding digit_char_def by (intro nth_mem) simp
  then show ?thesis by auto
qed

lemma str_nat_small: "n < 10 \<Longrightarrow> str_nat n = [digit_char n]"
  by (subst str_nat.simps) simp

lemma str_nat_big: "\<not> n < 10 \<Longrightarrow> str_nat n = str_nat (n div 10) @ [digit_char (n mod 10)]"
  by (subst str_nat.simps) simp

lemma str_nat_nonempty: "str_nat n \<noteq> []"
  by (cases "n < 10") (simp_all add: str_nat_small str_nat_big)

lemma str_nat_no_minus: "CHR ''-'' \<notin> set (str_nat n)"
proof (induction n rule: str_nat.induct)
  case (1 n)
  show ?case
  proof (cases "n < 10")
    case True
    then show ?thesis using digit_char_not_minus[of n] by (auto simp add: str_nat_small)
  next
    case False
    then show ?thesis using 1 digit_char_not_minus[of "n mod 10"]
      by (auto simp add: str_nat_big)
  qed
qed

lemma str_nat_inj: "str_nat m = str_nat n \<Longrightarrow> m = n"
proof (induction m arbitrary: n rule: str_nat.induct)
  case (1 m)
  show ?case
  proof (cases "m < 10")
    case m: True
    show ?thesis
    proof (cases "n < 10")
      case True
      with m 1(2) show ?thesis by (simp add: str_nat_small digit_char_inj)
    next
      case False
      with m 1(2) show ?thesis
        using str_nat_nonempty[of "n div 10"] by (auto simp add: str_nat_small str_nat_big)
    qed
  next
    case m: False
    show ?thesis
    proof (cases "n < 10")
      case True
      with m 1(2) show ?thesis
        using str_nat_nonempty[of "m div 10"] by (auto simp add: str_nat_small str_nat_big)
    next
      case False
      with m 1(2) have e: "str_nat (m div 10) = str_nat (n div 10)"
        and d: "digit_char (m mod 10) = digit_char (n mod 10)"
        by (simp_all add: str_nat_big)
      from 1(1)[OF m e] have q: "m div 10 = n div 10" .
      from d have r: "m mod 10 = n mod 10" by (simp add: digit_char_inj)
      from q r show ?thesis by (metis div_mult_mod_eq)
    qed
  qed
qed

lemma str_int_inj: "str_int i = str_int j \<Longrightarrow> i = j"
proof -
  assume e: "str_int i = str_int j"
  have hd_ne: "\<And>n. hd (str_nat n) \<noteq> CHR ''-''"
    using str_nat_no_minus str_nat_nonempty by (metis list.set_sel(1))
  show ?thesis
  proof (cases "i < 0")
    case i: True
    show ?thesis
    proof (cases "j < 0")
      case True
      with i e have "str_nat (nat (- i)) = str_nat (nat (- j))" by (simp add: str_int_def)
      then have "nat (- i) = nat (- j)" by (rule str_nat_inj)
      with i True show ?thesis by simp
    next
      case False
      with i e have "CHR ''-'' # str_nat (nat (- i)) = str_nat (nat j)" by (simp add: str_int_def)
      then have "hd (str_nat (nat j)) = CHR ''-''" by (metis list.sel(1))
      with hd_ne show ?thesis by blast
    qed
  next
    case i: False
    show ?thesis
    proof (cases "j < 0")
      case True
      with i e have "str_nat (nat i) = CHR ''-'' # str_nat (nat (- j))" by (simp add: str_int_def)
      then have "hd (str_nat (nat i)) = CHR ''-''" by (metis list.sel(1))
      with hd_ne show ?thesis by blast
    next
      case False
      with i e have "str_nat (nat i) = str_nat (nat j)" by (simp add: str_int_def)
      then have "nat i = nat j" by (rule str_nat_inj)
      with i False show ?thesis by simp
    qed
  qed
qed

lemma str_int_5: "str_int 5 = ''5''"
  by (simp add: str_int_def str_nat_small digit_char_def)

lemma str_int_6: "str_int 6 = ''6''"
  by (simp add: str_int_def str_nat_small digit_char_def)

lemma str_int_7: "str_int 7 = ''7''"
  by (simp add: str_int_def str_nat_small digit_char_def)

lemma str_int_8: "str_int 8 = ''8''"
  by (simp add: str_int_def str_nat_small digit_char_def)

text \<open>
  C6, as the code has it. Two connection establishments whose clock readings differ in
  whole milliseconds (\<^verbatim>\<open>int(time.time() * 1000)\<close>) get distinct session ids.
\<close>

theorem client_ids_distinct:
  "now1 \<noteq> now2 \<Longrightarrow> fst (register_client s1 ws1 now1) \<noteq> fst (register_client s2 ws2 now2)"
  by (auto simp add: register_client_def Let_def dest: str_int_inj)

theorem client_ids_distinct_witness:
  "(5::int) \<noteq> 6
   \<and> fst (register_client empty_server 1 5) \<noteq>
       fst (register_client (snd (register_client empty_server 1 5)) 2 6)"
  using client_ids_distinct [of 5 6 empty_server 1 "snd (register_client empty_server 1 5)" 2]
  by simp

text \<open>
  C6, as the claim states it, fails: two connections established within the same
  millisecond get the same id, and the second registration replaces the first one's
  registry entry.
\<close>

theorem client_ids_collide:
  "fst (register_client empty_server 1 5) = ''client_5''
   \<and> fst (register_client (snd (register_client empty_server 1 5)) 2 5) = ''client_5''
   \<and> map_option websocket
       (clients (snd (register_client (snd (register_client empty_server 1 5)) 2 5)) ''client_5'')
     = Some 2"
  by (simp add: register_client_def Let_def empty_server_def str_int_5)

section \<open>Properties of the handlers\<close>

text \<open>
  C8. An \<^verbatim>\<open>audio_chunk\<close> message for a session whose avatar id was never set (it is set
  only by a successful initialization) is answered by exactly one error event,
  \<open>AvatarNotInitialized\<close>, written to the session's connection (nothing is written when
  the connection refuses the send); the registry, and with it the session's audio queue
  and busy flag, is unchanged and no thread is started.
\<close>

theorem audio_chunk_before_initialization:
  assumes "clients s cid = Some c" and "avatar_id c = None"
  shows "handle_audio_chunk L s cid data = (send_error s cid AvatarNotInitialized, [])
    \<and> (dict_get data ''type'' = Inr (JStr ''audio_chunk'') \<longrightarrow>
         handle_message L s cid (Inr data) tn now = (send_error s cid AvatarNotInitialized, []))
    \<and> clients (fst (handle_audio_chunk L s cid data)) = clients s
    \<and> snd (handle_audio_chunk L s cid data) = []
    \<and> wire (fst (handle_audio_chunk L s cid data)) =
         (if websocket c \<in> closed s then wire s
          else wire s @ [(websocket c, ErrorEvent AvatarNotInitialized)])"
proof -
  have chk: "audio_chunk_checks L s cid data = Inl AvatarNotInitialized"
    using assms by (simp add: audio_chunk_checks_def)
  have h: "handle_audio_chunk L s cid data = (send_error s cid AvatarNotInitialized, [])"
    by (simp add: handle_audio_chunk_def chk)
  have m: "dict_get data ''type'' = Inr (JStr ''audio_chunk'') \<longrightarrow>
         handle_message L s cid (Inr data) tn now = (send_error s cid AvatarNotInitialized, [])"
    by (simp add: handle_message_def h)
  show ?thesis
    using assms(1) by (simp add: h m send_error_wire)
qed

theorem audio_chunk_before_initialization_witness:
  "clients fresh_server ''client_5'' = Some fresh_client
   \<and> avatar_id fresh_client = None
   \<and> dict_get (chunk ''a'') ''type'' = Inr (JStr ''audio_chunk'')
   \<and> websocket fresh_client \<notin> closed fresh_server
   \<and> snd (handle_message lib0 fresh_server ''client_5'' (Inr (chunk ''a'')) ''/tmp/t.mp4'' 7) = []
   \<and> clients (fst (handle_audio_chunk lib0 fresh_server ''client_5'' (chunk ''a'')))
       = clients fresh_server
   \<and> wire (fst (handle_audio_chunk lib0 fresh_server ''client_5'' (chunk ''a'')))
       = [(1, ErrorEvent AvatarNotInitialized)]"
proof -
  have a: "clients fresh_server ''client_5'' = Some fresh_client"
    by (simp add: fresh_server_def)
  have b: "avatar_id fresh_client = None"
    by (simp add: fresh_client_def)
  have c: "dict_get (chunk ''a'') ''type'' = Inr (JStr ''audio_chunk'')"
    by (simp add: chunk_def)
  have d: "websocket fresh_client \<notin> closed fresh_server" "wire fresh_server = []"
    "websocket fresh_client = 1"
    by (simp_all add: fresh_server_def empty_server_def fresh_client_def)
  note t = audio_chunk_before_initialization [OF a b, of lib0 "chunk ''a''" "''/tmp/t.mp4''" 7]
  from t c have m: "snd (handle_message lib0 fresh_server ''client_5'' (Inr (chunk ''a''))
      ''/tmp/t.mp4'' 7) = []"
    by simp
  from t have q: "clients (fst (handle_audio_chunk lib0 fresh_server ''client_5'' (chunk ''a'')))
      = clients fresh_server"
    by blast
  from t have "wire (fst (handle_audio_chunk lib0 fresh_server ''client_5'' (chunk ''a''))) =
         (if websocket fresh_client \<in> closed fresh_server then wire fresh_server
          else wire fresh_server @ [(websocket fresh_client, ErrorEvent AvatarNotInitialized)])"
    by blast
  with d have w: "wire (fst (handle_audio_chunk lib0 fresh_server ''client_5'' (chunk ''a'')))
       = [(1, ErrorEvent AvatarNotInitialized)]"
    by simp
  from a b c d(1) m q w show ?thesis by blast
qed

text \<open>
  C9, as the code has it. A message for which \<^verbatim>\<open>json.loads\<close> raises, a decoded message
  that is not an object, and an object whose \<^verbatim>\<open>type\<close> is none of the three dispatched
  kinds, read from a connection while the registry entry under the session's id holds
  that connection, are each answered by exactly one error event written to that
  connection, the sender (nothing is written when the connection refuses the send). The
  handler returns normally, no thread is started, and the registry, the avatar table and
  the set of closed connections are unchanged, so the session takes further messages.
\<close>

theorem malformed_or_unknown_message:
  assumes "(\<exists>e. message = Inl e)
     \<or> (\<exists>data e. message = Inr data \<and> dict_get data ''type'' = Inl e)
     \<or> (\<exists>data t. message = Inr data \<and> dict_get data ''type'' = Inr t
          \<and> t \<noteq> JStr ''initialize_avatar'' \<and> t \<noteq> JStr ''audio_chunk''
          \<and> t \<noteq> JStr ''get_status'')"
    and "clients s cid = Some c" and "websocket c = ws"
  shows "\<exists>m. receive_message L s ws cid message tn now = (send_error s cid m, [])
     \<and> (m = InvalidJSONMessage \<or> (\<exists>e. m = ErrorProcessingMessage e)
          \<or> (\<exists>t. m = UnknownMessageType t))
     \<and> clients (send_error s cid m) = clients s
     \<and> avatars (send_error s cid m) = avatars s
     \<and> closed (send_error s cid m) = closed s
     \<and> wire (send_error s cid m) =
         (if ws \<in> closed s then wire s else wire s @ [(ws, ErrorEvent m)])"
  using assms(1)
proof (elim disjE exE conjE)
  fix e
  assume msg: "message = Inl e"
  show ?thesis
  proof (cases "e = JSONDecodeError")
    case True
    with msg have "receive_message L s ws cid message tn now
        = (send_error s cid InvalidJSONMessage, [])"
      by (simp add: receive_message_def handle_message_def)
    then show ?thesis
      using assms(2,3)
      by (intro exI[of _ "InvalidJSONMessage"]) (simp add: send_error_wire)
  next
    case False
    with msg have "receive_message L s ws cid message tn now
        = (send_error s cid (ErrorProcessingMessage e), [])"
      by (simp add: receive_message_def handle_message_def)
    then show ?thesis
      using assms(2,3)
      by (intro exI[of _ "ErrorProcessingMessage e"]) (simp add: send_error_wire)
  qed
next
  fix data e
  assume "message = Inr data" "dict_get data ''type'' = Inl e"
  then have "receive_message L s ws cid message tn now =
      (send_error s cid (ErrorProcessingMessage e), [])"
    by (simp add: receive_message_def handle_message_def)
  then show ?thesis
    using assms(2,3)
    by (intro exI[of _ "ErrorProcessingMessage e"]) (simp add: send_error_wire)
next
  fix data t
  assume "message = Inr data" "dict_get data ''type'' = Inr t"
    "t \<noteq> JStr ''initialize_avatar''" "t \<noteq> JStr ''audio_chunk''" "t \<noteq> JStr ''get_status''"
  then have "receive_message L s ws cid message tn now
      = (send_error s cid (UnknownMessageType t), [])"
    by (simp add: receive_message_def handle_message_def)
  then show ?thesis
    using assms(2,3)
    by (intro exI[of _ "UnknownMessageType t"]) (simp add: send_error_wire)
qed

theorem malformed_or_unknown_message_witness:
  "clients fresh_server ''client_5'' = Some fresh_client
   \<and> websocket fresh_client = 1
   \<and> 1 \<notin> closed fresh_server
   \<and> dict_get (JList []) ''type'' = Inl AttributeError
   \<and> dict_get (JDict [(''type'', JStr ''ping'')]) ''type'' = Inr (JStr ''ping'')
   \<and> (\<exists>m. receive_message lib0 fresh_server 1 ''client_5'' (Inl JSONDecodeError) ''/tmp/t.mp4'' 7
            = (send_error fresh_server ''client_5'' m, [])
          \<and> wire (send_error fresh_server ''client_5'' m) = wire fresh_server @ [(1, ErrorEvent m)])
   \<and> (\<exists>m. receive_message lib0 fresh_server 1 ''client_5'' (Inl UnicodeDecodeError) ''/tmp/t.mp4'' 7
            = (send_error fresh_server ''client_5'' m, [])
          \<and> wire (send_error fresh_server ''client_5'' m) = wire fresh_server @ [(1, ErrorEvent m)])
   \<and> (\<exists>m. receive_message lib0 fresh_server 1 ''client_5'' (Inr (JList [])) ''/tmp/t.mp4'' 7
            = (send_error fresh_server ''client_5'' m, [])
          \<and> wire (send_error fresh_server ''client_5'' m) = wire fresh_server @ [(1, ErrorEvent m)])
   \<and> (\<exists>m. receive_message lib0 fresh_server 1 ''client_5''
              (Inr (JDict [(''type'', JStr ''ping'')])) ''/tmp/t.mp4'' 7
            = (send_error fresh_server ''client_5'' m, [])
          \<and> wire (send_error fresh_server ''client_5'' m) = wire fresh_server @ [(1, ErrorEvent m)])"
proof -
  have s: "clients fresh_server ''client_5'' = Some fresh_client"
    by (simp add: fresh_server_def)
  have w: "websocket fresh_client = 1"
    by (simp add: fresh_client_def)
  have o: "1 \<notin> closed fresh_server"
    by (simp add: fresh_server_def empty_server_def)
  have a: "dict_get (JList []) ''type'' = Inl AttributeError"
    by simp
  have b: "dict_get (JDict [(''type'', JStr ''ping'')]) ''type'' = Inr (JStr ''ping'')"
    by simp
  have n: "JStr ''ping'' \<noteq> JStr ''initialize_avatar''" "JStr ''ping'' \<noteq> JStr ''audio_chunk''"
    "JStr ''ping'' \<noteq> JStr ''get_status''"
    by simp_all
  have 1: "\<exists>m. receive_message lib0 fresh_server 1 ''client_5'' (Inl JSONDecodeError) ''/tmp/t.mp4'' 7
            = (send_error fresh_server ''client_5'' m, [])
          \<and> wire (send_error fresh_server ''client_5'' m) = wire fresh_server @ [(1, ErrorEvent m)]"
    using malformed_or_unknown_message
      [of "Inl JSONDecodeError" fresh_server "''client_5''" fresh_client 1 lib0 "''/tmp/t.mp4''" 7]
      s w o
    by auto
  have 2: "\<exists>m. receive_message lib0 fresh_server 1 ''client_5'' (Inl UnicodeDecodeError) ''/tmp/t.mp4'' 7
            = (send_error fresh_server ''client_5'' m, [])
          \<and> wire (send_error fresh_server ''client_5'' m) = wire fresh_server @ [(1, ErrorEvent m)]"
    using malformed_or_unknown_message
      [of "Inl UnicodeDecodeError" fresh_server "''client_5''" fresh_client 1 lib0 "''/tmp/t.mp4''" 7]
      s w o
    by auto
  have 3: "\<exists>m. receive_message lib0 fresh_server 1 ''client_5'' (Inr (JList [])) ''/tmp/t.mp4'' 7
            = (send_error fresh_server ''client_5'' m, [])
          \<and> wire (send_error fresh_server ''client_5'' m) = wire fresh_server @ [(1, ErrorEvent m)]"
    using malformed_or_unknown_message
      [of "Inr (JList [])" fresh_server "''client_5''" fresh_client 1 lib0 "''/tmp/t.mp4''" 7]
      s w o a
    by auto
  have 4: "\<exists>m. receive_message lib0 fresh_server 1 ''client_5''
              (Inr (JDict [(''type'', JStr ''ping'')])) ''/tmp/t.mp4'' 7
            = (send_error fresh_server ''client_5'' m, [])
          \<and> wire (send_error fresh_server ''client_5'' m) = wire fresh_server @ [(1, ErrorEvent m)]"
    using malformed_or_unknown_message
      [of "Inr (JDict [(''type'', JStr ''ping'')])" fresh_server "''client_5''" fresh_client 1 lib0
          "''/tmp/t.mp4''" 7] s w o b n
    by auto
  from s w o a b 1 2 3 4 show ?thesis by blast
qed

text \<open>
  C9, as the claim states it, fails: the error event is written to the connection that
  the registry holds under the session's id, which need not be the sender. Connections
  1 and 2 are established in the same millisecond and share the id; a malformed message
  read from connection 1 is answered on connection 2, and nothing is written to
  connection 1.
\<close>

theorem error_event_to_other_connection:
  "fst (register_client empty_server 1 5) = ''client_5''
   \<and> fst (register_client (snd (register_client empty_server 1 5)) 2 5) = ''client_5''
   \<and> wire (snd (register_client (snd (register_client empty_server 1 5)) 2 5))
       = [(1, ConnectionEstablished ''client_5''), (2, ConnectionEstablished ''client_5'')]
   \<and> wire (fst (receive_message lib0
         (snd (register_client (snd (register_client empty_server 1 5)) 2 5))
         1 ''client_5'' (Inl JSONDecodeError) ''/tmp/t.mp4'' 7))
       = [(1, ConnectionEstablished ''client_5''), (2, ConnectionEstablished ''client_5''),
          (2, ErrorEvent InvalidJSONMessage)]"
  by (simp add: register_client_def Let_def empty_server_def str_int_5 receive_message_def
      handle_message_def send_error_def send_message_def)

text \<open>
  C7, as the code has it. A request where neither video field has a true value is
  answered by one error event and starts no thread (no avatar is created); a request
  that starts the initialization thread has at least one of the two fields. A request
  whose data field is present and decodes is accepted whatever the path field is, also
  when both are given: the data is written to a temporary file and that file is the
  avatar's video. A request with the path field alone is accepted when the path exists.
\<close>

theorem initialize_avatar_video_fields:
  assumes "dict_get data ''avatar_video_data'' = Inr vd"
    and "dict_get data ''avatar_video_path'' = Inr vp"
    and "dict_get_default data ''version'' (JStr ''v15'') = Inr ver"
  shows "(\<not> truthy vd \<and> \<not> truthy vp \<longrightarrow>
            handle_initialize_avatar L s cid data tn now
              = (send_error s cid EitherDataOrPathMustBeProvided, []))
     \<and> (snd (handle_initialize_avatar L s cid data tn now) \<noteq> [] \<longrightarrow> truthy vd \<or> truthy vp)
     \<and> (truthy vd \<longrightarrow> (\<forall>b. b64decode_json L vd = Inr b \<longrightarrow>
            handle_initialize_avatar L s cid data tn now
              = (send_message (s\<lparr>files := insert tn (files s)\<rparr>) cid
                   (AvatarInitializationStarted (''avatar_'' @ cid @ ''_'' @ str_int now)),
                 [InitializeAvatar cid (''avatar_'' @ cid @ ''_'' @ str_int now) (JStr tn) ver])))
     \<and> (\<not> truthy vd \<and> truthy vp \<and> path_exists L s vp = Inr True \<longrightarrow>
            handle_initialize_avatar L s cid data tn now
              = (send_message s cid
                   (AvatarInitializationStarted (''avatar_'' @ cid @ ''_'' @ str_int now)),
                 [InitializeAvatar cid (''avatar_'' @ cid @ ''_'' @ str_int now) vp ver]))"
proof (intro conjI impI allI)
  assume "\<not> truthy vd \<and> \<not> truthy vp"
  then show "handle_initialize_avatar L s cid data tn now
              = (send_error s cid EitherDataOrPathMustBeProvided, [])"
    using assms by (simp add: handle_initialize_avatar_def)
next
  assume n: "snd (handle_initialize_avatar L s cid data tn now) \<noteq> []"
  show "truthy vd \<or> truthy vp"
  proof (rule ccontr)
    assume "\<not> (truthy vd \<or> truthy vp)"
    then have "handle_initialize_avatar L s cid data tn now
              = (send_error s cid EitherDataOrPathMustBeProvided, [])"
      using assms by (simp add: handle_initialize_avatar_def)
    with n show False by simp
  qed
next
  fix b
  assume "truthy vd" "b64decode_json L vd = Inr b"
  then show "handle_initialize_avatar L s cid data tn now
              = (send_message (s\<lparr>files := insert tn (files s)\<rparr>) cid
                   (AvatarInitializationStarted (''avatar_'' @ cid @ ''_'' @ str_int now)),
                 [InitializeAvatar cid (''avatar_'' @ cid @ ''_'' @ str_int now) (JStr tn) ver])"
    using assms by (simp add: handle_initialize_avatar_def path_exists_def Let_def)
next
  assume "\<not> truthy vd \<and> truthy vp \<and> path_exists L s vp = Inr True"
  then show "handle_initialize_avatar L s cid data tn now
              = (send_message s cid
                   (AvatarInitializationStarted (''avatar_'' @ cid @ ''_'' @ str_int now)),
                 [InitializeAvatar cid (''avatar_'' @ cid @ ''_'' @ str_int now) vp ver])"
    using assms by (simp add: handle_initialize_avatar_def Let_def)
qed

theorem initialize_avatar_video_fields_witness:
  "dict_get no_fields ''avatar_video_data'' = Inr JNull
   \<and> dict_get no_fields ''avatar_video_path'' = Inr JNull
   \<and> dict_get_default no_fields ''version'' (JStr ''v15'') = Inr (JStr ''v15'')
   \<and> \<not> truthy JNull
   \<and> handle_initialize_avatar lib0 fresh_server ''client_5'' no_fields ''/tmp/t.mp4'' 7
       = (send_error fresh_server ''client_5'' EitherDataOrPathMustBeProvided, [])
   \<and> dict_get both_fields ''avatar_video_data'' = Inr (JStr ''QUJD'')
   \<and> dict_get both_fields ''avatar_video_path'' = Inr (JStr ''/v/a.mp4'')
   \<and> truthy (JStr ''QUJD'')
   \<and> b64decode_json lib0 (JStr ''QUJD'') = Inr ''QUJD''
   \<and> snd (handle_initialize_avatar lib0 fresh_server ''client_5'' both_fields ''/tmp/t.mp4'' 7)
       = [InitializeAvatar ''client_5'' (''avatar_'' @ ''client_5'' @ ''_'' @ str_int 7)
            (JStr ''/tmp/t.mp4'') (JStr ''v15'')]
   \<and> dict_get path_only ''avatar_video_data'' = Inr JNull
   \<and> dict_get path_only ''avatar_video_path'' = Inr (JStr ''/v/a.mp4'')
   \<and> truthy (JStr ''/v/a.mp4'')
   \<and> path_exists lib0 fresh_server (JStr ''/v/a.mp4'') = Inr True
   \<and> snd (handle_initialize_avatar lib0 fresh_server ''client_5'' path_only ''/tmp/t.mp4'' 7)
       = [InitializeAvatar ''client_5'' (''avatar_'' @ ''client_5'' @ ''_'' @ str_int 7)
            (JStr ''/v/a.mp4'') (JStr ''v15'')]"
proof -
  have n: "dict_get no_fields ''avatar_video_data'' = Inr JNull"
    "dict_get no_fields ''avatar_video_path'' = Inr JNull"
    "dict_get_default no_fields ''version'' (JStr ''v15'') = Inr (JStr ''v15'')"
    by (simp_all add: no_fields_def)
  have b: "dict_get both_fields ''avatar_video_data'' = Inr (JStr ''QUJD'')"
    "dict_get both_fields ''avatar_video_path'' = Inr (JStr ''/v/a.mp4'')"
    "dict_get_default both_fields ''version'' (JStr ''v15'') = Inr (JStr ''v15'')"
    by (simp_all add: both_fields_def)
  have q: "dict_get path_only ''avatar_video_data'' = Inr JNull"
    "dict_get path_only ''avatar_video_path'' = Inr (JStr ''/v/a.mp4'')"
    "dict_get_default path_only ''version'' (JStr ''v15'') = Inr (JStr ''v15'')"
    by (simp_all add: path_only_def)
  have t: "\<not> truthy JNull" "truthy (JStr ''QUJD'')" "truthy (JStr ''/v/a.mp4'')"
    by simp_all
  have d: "b64decode_json lib0 (JStr ''QUJD'') = Inr ''QUJD''"
    by (simp add: b64decode_json_def lib0_def)
  have e: "path_exists lib0 fresh_server (JStr ''/v/a.mp4'') = Inr True"
    by (simp add: path_exists_def fresh_server_def empty_server_def)
  have 1: "handle_initialize_avatar lib0 fresh_server ''client_5'' no_fields ''/tmp/t.mp4'' 7
       = (send_error fresh_server ''client_5'' EitherDataOrPathMustBeProvided, [])"
    using initialize_avatar_video_fields
      [OF n, of lib0 fresh_server "''client_5''" "''/tmp/t.mp4''" 7] t
    by blast
  have "handle_initialize_avatar lib0 fresh_server ''client_5'' both_fields ''/tmp/t.mp4'' 7
       = (send_message (fresh_server\<lparr>files := insert ''/tmp/t.mp4'' (files fresh_server)\<rparr>)
            ''client_5'' (AvatarInitializationStarted (''avatar_'' @ ''client_5'' @ ''_'' @ str_int 7)),
          [InitializeAvatar ''client_5'' (''avatar_'' @ ''client_5'' @ ''_'' @ str_int 7)
            (JStr ''/tmp/t.mp4'') (JStr ''v15'')])"
    using initialize_avatar_video_fields
      [OF b, of lib0 fresh_server "''client_5''" "''/tmp/t.mp4''" 7] t d
    by blast
  then have 2: "snd (handle_initialize_avatar lib0 fresh_server ''client_5'' both_fields ''/tmp/t.mp4'' 7)
       = [InitializeAvatar ''client_5'' (''avatar_'' @ ''client_5'' @ ''_'' @ str_int 7)
            (JStr ''/tmp/t.mp4'') (JStr ''v15'')]"
    by (simp only: snd_conv)
  have "handle_initialize_avatar lib0 fresh_server ''client_5'' path_only ''/tmp/t.mp4'' 7
       = (send_message fresh_server ''client_5''
            (AvatarInitializationStarted (''avatar_'' @ ''client_5'' @ ''_'' @ str_int 7)),
          [InitializeAvatar ''client_5'' (''avatar_'' @ ''client_5'' @ ''_'' @ str_int 7)
            (JStr ''/v/a.mp4'') (JStr ''v15'')])"
    using initialize_avatar_video_fields
      [OF q, of lib0 fresh_server "''client_5''" "''/tmp/t.mp4''" 7] t e
    by blast
  then have 3: "snd (handle_initialize_avatar lib0 fresh_server ''client_5'' path_only ''/tmp/t.mp4'' 7)
       = [InitializeAvatar ''client_5'' (''avatar_'' @ ''client_5'' @ ''_'' @ str_int 7)
            (JStr ''/v/a.mp4'') (JStr ''v15'')]"
    by (simp only: snd_conv)
  from n b(1,2) q(1,2) t d e 1 2 3 show ?thesis by blast
qed

text \<open>
  C7, as the claim states it, fails: a request carrying both video fields is not
  rejected. No error event is sent; the acknowledgement is, and the initialization
  thread is started on the temporary file holding the decoded data.
\<close>

theorem both_video_fields_accepted:
  "handle_initialize_avatar lib0 fresh_server ''client_5'' both_fields ''/tmp/t.mp4'' 7
     = (fresh_server\<lparr>files := {''/tmp/t.mp4'', ''/v/a.mp4''},
          wire := [(1, AvatarInitializationStarted ''avatar_client_5_7'')]\<rparr>,
        [InitializeAvatar ''client_5'' ''avatar_client_5_7'' (JStr ''/tmp/t.mp4'') (JStr ''v15'')])"
  by (simp add: handle_initialize_avatar_def both_fields_def lib0_def b64decode_json_def
      path_exists_def Let_def str_int_7 send_message_def fresh_server_def fresh_client_def
      empty_server_def)

text \<open>
  C5, as the code has it. When the initialization thread succeeds for a registered
  session that already has an avatar bound, the new wrapper is stored in the avatar
  table under the new avatar id and the session's binding is overwritten with that id.
\<close>

theorem rebinding_overwrites:
  assumes "clients s cid = Some c" and "avatar_id c = Some old"
  shows "avatars (snd (initialize_avatar WorkerThread s cid aid in_use (Prepared w True) p)) aid = Some w
     \<and> clients (snd (initialize_avatar WorkerThread s cid aid in_use (Prepared w True) p)) cid
         = Some (c\<lparr>avatar_id := Some aid\<rparr>)"
  using assms by (simp add: initialize_avatar_def wrapper_del_def Let_def split: option.splits)

theorem rebinding_overwrites_witness:
  "clients demo_server ''client_5'' = Some demo_client
   \<and> avatar_id demo_client = Some ''avatar_client_5_7''
   \<and> avatars (snd (initialize_avatar WorkerThread demo_server ''client_5''
         ''avatar_client_5_8'' False (Prepared other_wrapper True) [])) ''avatar_client_5_8''
       = Some other_wrapper
   \<and> clients (snd (initialize_avatar WorkerThread demo_server ''client_5''
         ''avatar_client_5_8'' False (Prepared other_wrapper True) [])) ''client_5''
       = Some (demo_client\<lparr>avatar_id := Some ''avatar_client_5_8''\<rparr>)"
proof -
  have a: "clients demo_server ''client_5'' = Some demo_client"
    by (simp add: demo_server_def)
  have b: "avatar_id demo_client = Some ''avatar_client_5_7''"
    by (simp add: demo_client_def)
  from a b rebinding_overwrites
    [OF a b, of "''avatar_client_5_8''" False other_wrapper "[]"]
  show ?thesis by blast
qed

text \<open>
  When the new avatar id is the one the table already holds (a second initialization in
  the same second) and no worker holds the overwritten wrapper, that wrapper is
  collected and its temporary directory removed.
\<close>

lemma rebinding_same_id_collects:
  "temp_dir demo_wrapper \<notin> files (snd (initialize_avatar WorkerThread demo_server ''client_5''
         ''avatar_client_5_7'' False (Prepared other_wrapper True) []))
   \<and> temp_dir demo_wrapper \<in> files (snd (initialize_avatar WorkerThread demo_server ''client_5''
         ''avatar_client_5_7'' True (Prepared other_wrapper True) []))"
  by (simp add: initialize_avatar_def wrapper_del_def cleanup_def Let_def demo_server_def
      demo_client_def demo_wrapper_def other_wrapper_def)

text \<open>
  C5, as the claim states it, fails: the previously bound avatar is not released.
  After the rebinding to a new avatar id the previous wrapper is still in the avatar
  table and its temporary directory still exists.
\<close>

theorem previous_avatar_not_released:
  "avatar_id demo_client = Some ''avatar_client_5_7''
   \<and> clients demo_server ''client_5'' = Some demo_client
   \<and> avatars demo_server ''avatar_client_5_7'' = Some demo_wrapper
   \<and> map_option avatar_id (clients (snd (initialize_avatar WorkerThread demo_server ''client_5''
         ''avatar_client_5_8'' False (Prepared other_wrapper True) [])) ''client_5'')
       = Some (Some ''avatar_client_5_8'')
   \<and> avatars (snd (initialize_avatar WorkerThread demo_server ''client_5''
         ''avatar_client_5_8'' False (Prepared other_wrapper True) [])) ''avatar_client_5_7''
       = Some demo_wrapper
   \<and> temp_dir demo_wrapper \<in> files (snd (initialize_avatar WorkerThread demo_server ''client_5''
         ''avatar_client_5_8'' False (Prepared other_wrapper True) []))"
  by (simp add: initialize_avatar_def Let_def demo_server_def demo_client_def demo_wrapper_def
      other_wrapper_def)

section \<open>Properties of the audio pipeline\<close>

lemmas machine_defs = start_def demo_server_def demo_client_def demo_wrapper_def lib0_def
  chunk_def receive_step_def loop_step_def thread_step_def worker_step_def task_step_def
  audio_chunk_checks_def queue_put_def set_processing_def send_message_def send_error_def
  loop_body_def b64decode_json_def Let_def ok_def

text \<open>
  The handler run without interruption is the handler's statements taken one after the
  other by the transition system.
\<close>

lemma checks_client:
  "audio_chunk_checks L s cid data = Inr (aid, b) \<Longrightarrow> \<exists>c. clients s cid = Some c"
  by (auto simp add: audio_chunk_checks_def split: option.splits)

lemma handle_audio_chunk_steps:
  assumes "handler cfg = Idle"
  shows "run L cid [Receive data, Loop, Loop, Loop] cfg =
     cfg\<lparr>srv := fst (handle_audio_chunk L (srv cfg) cid data),
         threads := threads cfg @ concat (map worker_of (snd (handle_audio_chunk L (srv cfg) cid data)))\<rparr>"
proof (cases "audio_chunk_checks L (srv cfg) cid data")
  case (Inl m)
  with assms show ?thesis
    by (simp add: receive_step_def loop_step_def handle_audio_chunk_def)
next
  case (Inr r)
  obtain aid b where r: "r = (aid, b)" by (cases r)
  from Inr r checks_client obtain c where c: "clients (srv cfg) cid = Some c" by blast
  show ?thesis
  proof (cases "processing c")
    case True
    with assms Inr r c show ?thesis
      by (simp add: receive_step_def loop_step_def handle_audio_chunk_def queue_put_def Let_def)
  next
    case False
    with assms Inr r c show ?thesis
      by (simp add: receive_step_def loop_step_def handle_audio_chunk_def queue_put_def
          set_processing_def Let_def)
  qed
qed

subsection \<open>At most one worker\<close>

lemma filter_update_count:
  "i < length ws \<Longrightarrow>
   length (filter P (ws[i := w])) + (if P (ws ! i) then 1 else 0)
     = length (filter P ws) + (if P w then 1 else 0)"
proof (induction ws arbitrary: i)
  case Nil
  then show ?case by simp
next
  case (Cons a ws)
  show ?case
  proof (cases i)
    case 0
    then show ?thesis by simp
  next
    case (Suc j)
    with Cons.prems have "j < length ws" by simp
    from Cons.IH[OF this] Suc show ?thesis by simp
  qed
qed

lemma filter_le: "(\<And>x. P x \<Longrightarrow> Q x) \<Longrightarrow> length (filter P xs) \<le> length (filter Q xs)"
  by (induction xs) auto

lemma generating_live: "generating w \<Longrightarrow> live w"
  by (auto simp add: generating_def live_def split: worker_pc.splits)

lemma worker_step_effect:
  assumes "worker_step L cid w out ts s p = (w', s', p')" and "clients s cid = Some c"
  shows "\<exists>c'. clients s' cid = Some c'
          \<and> (if w_pc w = WFinally then \<not> live w' \<and> \<not> processing c'
              else live w' = live w \<and> processing c' = processing c)"
  using assms
  by (cases "w_pc w")
     (auto simp add: worker_step_def live_def set_processing_def
           split: option.splits list.splits sum.splits if_splits)

lemma one_worker_receive: "one_worker cid cfg \<Longrightarrow> one_worker cid (receive_step L cid data cfg)"
  by (cases "handler cfg")
     (auto simp add: one_worker_def receive_step_def busy_def spawning_def setting_def
        queue_put_def split: sum.splits option.splits)

lemma one_worker_loop: "one_worker cid cfg \<Longrightarrow> one_worker cid (loop_step cid cfg)"
  by (cases "handler cfg")
     (auto simp add: one_worker_def loop_step_def busy_def spawning_def setting_def
        set_processing_def live_def split: option.splits if_splits)

lemma one_worker_task: "one_worker cid cfg \<Longrightarrow> one_worker cid (task_step cfg)"
  by (cases "handler cfg")
     (auto simp add: one_worker_def task_step_def busy_def spawning_def setting_def
        split: list.splits task.splits)

lemma one_worker_thread:
  assumes inv: "one_worker cid cfg"
  shows "one_worker cid (thread_step L cid i out ts cfg)"
proof (cases "i < length (threads cfg)")
  case False
  with inv show ?thesis by (simp add: thread_step_def)
next
  case True
  from inv obtain c where c: "clients (srv cfg) cid = Some c"
    by (auto simp add: one_worker_def)
  obtain w' s' p' where ws:
    "worker_step L cid (threads cfg ! i) out ts (srv cfg) (pending cfg) = (w', s', p')"
    by (cases "worker_step L cid (threads cfg ! i) out ts (srv cfg) (pending cfg)") auto
  from worker_step_effect[OF ws c] obtain c' where c': "clients s' cid = Some c'"
    and eff: "if w_pc (threads cfg ! i) = WFinally then \<not> live w' \<and> \<not> processing c'
              else live w' = live (threads cfg ! i) \<and> processing c' = processing c"
    by blast
  have step: "thread_step L cid i out ts cfg
      = cfg\<lparr>threads := (threads cfg)[i := w'], srv := s', pending := p'\<rparr>"
    using True ws by (simp add: thread_step_def)
  have cnt: "length (filter live ((threads cfg)[i := w'])) + (if live (threads cfg ! i) then 1 else 0)
     = length (filter live (threads cfg)) + (if live w' then 1 else 0)"
    using True by (rule filter_update_count)
  show ?thesis
  proof (cases "w_pc (threads cfg ! i) = WFinally")
    case fin: True
    then have l: "live (threads cfg ! i)" by (simp add: live_def)
    from fin eff have e: "\<not> live w'" "\<not> processing c'" by simp_all
    from inv c l cnt e show ?thesis
      unfolding step one_worker_def busy_def spawning_def setting_def
      by (auto simp add: c' split: if_splits)
  next
    case False
    with eff have e: "live w' = live (threads cfg ! i)" "processing c' = processing c" by simp_all
    from inv c cnt e show ?thesis
      unfolding step one_worker_def busy_def spawning_def setting_def
      by (auto simp add: c' split: if_splits)
  qed
qed

lemma one_worker_exec: "one_worker cid cfg \<Longrightarrow> one_worker cid (exec L cid l cfg)"
  by (cases l) (simp_all add: one_worker_receive one_worker_loop one_worker_task one_worker_thread)

lemma one_worker_run: "one_worker cid cfg \<Longrightarrow> one_worker cid (run L cid ls cfg)"
  by (induction ls arbitrary: cfg) (simp_all add: one_worker_exec)

lemma one_worker_start: "clients s cid = Some c \<Longrightarrow> \<not> processing c \<Longrightarrow> one_worker cid (start s)"
  by (simp add: one_worker_def start_def busy_def spawning_def setting_def)

text \<open>
  C2. Start from a registered session whose busy flag is clear and that has no worker,
  and let chunk arrivals, handler statements, loop tasks and worker statements interleave
  in any order, with any outcome of the external steps. In every configuration reached,
  at most one thread is inside the loop body (where generation runs) and at most one
  thread has not returned; when the handler is about to start a thread no thread is
  live; and a live thread implies that the busy flag is set.
\<close>

theorem at_most_one_worker:
  assumes "clients s cid = Some c" and "\<not> processing c"
  shows "length (filter generating (threads (run L cid ls (start s)))) \<le> 1
     \<and> length (filter live (threads (run L cid ls (start s)))) \<le> 1
     \<and> (spawning (run L cid ls (start s)) \<longrightarrow>
           filter live (threads (run L cid ls (start s))) = [])
     \<and> (filter live (threads (run L cid ls (start s))) \<noteq> [] \<longrightarrow>
           busy cid (run L cid ls (start s)))"
proof -
  let ?cfg = "run L cid ls (start s)"
  have inv: "one_worker cid ?cfg"
    using assms by (intro one_worker_run one_worker_start)
  have le: "length (filter generating (threads ?cfg)) \<le> length (filter live (threads ?cfg))"
    by (rule filter_le) (rule generating_live)
  from inv have 1: "length (filter live (threads ?cfg)) \<le> 1"
    by (auto simp add: one_worker_def split: if_splits)
  from inv have 2: "spawning ?cfg \<longrightarrow> filter live (threads ?cfg) = []"
    by (auto simp add: one_worker_def split: if_splits)
  from inv have 3: "filter live (threads ?cfg) \<noteq> [] \<longrightarrow> busy cid ?cfg"
    by (auto simp add: one_worker_def split: if_splits)
  from le 1 2 3 show ?thesis by simp
qed

theorem at_most_one_worker_witness:
  "clients demo_server ''client_5'' = Some demo_client
   \<and> \<not> processing demo_client
   \<and> spawning (run lib0 ''client_5'' spawn_trace (start demo_server))
   \<and> filter live (threads (run lib0 ''client_5'' spawn_trace (start demo_server))) = []
   \<and> filter live (threads (run lib0 ''client_5'' busy_trace (start demo_server))) \<noteq> []
   \<and> busy ''client_5'' (run lib0 ''client_5'' busy_trace (start demo_server))
   \<and> length (filter generating (threads (run lib0 ''client_5'' busy_trace (start demo_server)))) \<le> 1"
proof -
  have a: "clients demo_server ''client_5'' = Some demo_client"
    by (simp add: demo_server_def)
  have b: "\<not> processing demo_client"
    by (simp add: demo_client_def)
  have c: "spawning (run lib0 ''client_5'' spawn_trace (start demo_server))"
    by (simp add: spawn_trace_def spawning_def machine_defs)
  have d: "filter live (threads (run lib0 ''client_5'' busy_trace (start demo_server))) \<noteq> []"
    by (simp add: busy_trace_def live_def machine_defs)
  from a b c d
    at_most_one_worker [OF a b, of lib0 spawn_trace]
    at_most_one_worker [OF a b, of lib0 busy_trace]
  show ?thesis by blast
qed

subsection \<open>What a worker delivers\<close>

text \<open>
  In a worker thread every path through the loop body ends in \<^verbatim>\<open>asyncio.create_task\<close>,
  which raises there, and the handler of that exception calls it again.
\<close>

lemma loop_body_worker: "loop_body L WorkerThread cid out ts p = Inl RuntimeError"
  by (simp add: loop_body_def split: outcome.splits option.splits)

lemma send_message_results:
  "\<not> result_event m \<Longrightarrow> results_on_wire (send_message s cid m) = results_on_wire s"
  by (simp add: results_on_wire_def send_message_def split: option.splits)

lemma checks_error_no_result:
  "audio_chunk_checks L s cid data = Inl m \<Longrightarrow> \<not> result_event (ErrorEvent m)"
  by (auto simp add: audio_chunk_checks_def split: option.splits if_splits sum.splits)

lemma queue_put_wire [simp]: "wire (queue_put s cid b) = wire s"
  by (simp add: queue_put_def split: option.splits)

lemma set_processing_wire [simp]: "wire (set_processing s cid b) = wire s"
  by (simp add: set_processing_def split: option.splits)

lemma results_on_wire_put [simp]:
  "results_on_wire (queue_put s cid b) = results_on_wire s"
  "results_on_wire (set_processing s cid f) = results_on_wire s"
  by (simp_all add: results_on_wire_def)

lemma worker_step_quiet:
  "worker_step L cid w out ts s p = (w', s', p') \<Longrightarrow> wire s' = wire s \<and> p' = p"
  by (cases "w_pc w")
     (auto simp add: worker_step_def loop_body_worker split: option.splits list.splits if_splits)

lemma quiet_receive: "quiet rs cfg \<Longrightarrow> quiet rs (receive_step L cid data cfg)"
  by (cases "handler cfg")
     (auto simp add: quiet_def receive_step_def send_error_def send_message_results
        checks_error_no_result split: sum.splits)

lemma quiet_loop: "quiet rs cfg \<Longrightarrow> quiet rs (loop_step cid cfg)"
  by (cases "handler cfg")
     (auto simp add: quiet_def loop_step_def send_error_def send_message_results
        split: option.splits)

lemma quiet_task: "quiet rs cfg \<Longrightarrow> quiet rs (task_step cfg)"
  by (cases "handler cfg") (auto simp add: quiet_def task_step_def)

lemma quiet_thread: "quiet rs cfg \<Longrightarrow> quiet rs (thread_step L cid i out ts cfg)"
proof (cases "i < length (threads cfg)")
  case False
  assume "quiet rs cfg"
  with False show ?thesis by (simp add: thread_step_def)
next
  case True
  assume q: "quiet rs cfg"
  obtain w' s' p' where ws:
    "worker_step L cid (threads cfg ! i) out ts (srv cfg) (pending cfg) = (w', s', p')"
    by (cases "worker_step L cid (threads cfg ! i) out ts (srv cfg) (pending cfg)") auto
  from worker_step_quiet[OF ws] q True ws show ?thesis
    by (simp add: thread_step_def quiet_def results_on_wire_def)
qed

lemma quiet_exec: "quiet rs cfg \<Longrightarrow> quiet rs (exec L cid l cfg)"
  by (cases l) (simp_all add: quiet_receive quiet_loop quiet_task quiet_thread)

lemma quiet_run: "quiet rs cfg \<Longrightarrow> quiet rs (run L cid ls cfg)"
  by (induction ls arbitrary: cfg) (simp_all add: quiet_exec)

lemma no_result_event_delivered:
  "results_on_wire (srv (run L cid ls (start s))) = results_on_wire s
   \<and> pending (run L cid ls (start s)) = []"
proof -
  have "quiet (results_on_wire s) (start s)"
    by (simp add: quiet_def start_def)
  then have "quiet (results_on_wire s) (run L cid ls (start s))"
    by (rule quiet_run)
  then show ?thesis by (simp add: quiet_def)
qed

text \<open>
  C4 on the code. For a chunk whose generation succeeds, the loop body run in a worker
  thread ends with \<^verbatim>\<open>RuntimeError\<close> and schedules nothing, the worker goes to its
  \<^verbatim>\<open>finally\<close> clause, and no schedule ever puts a delivery task on the event loop. The
  same body on the event loop's own thread would schedule the video event. On the
  example session one chunk handled to the end leaves the acknowledgement as the only
  message on the connection.
\<close>

theorem video_chunk_not_delivered:
  "loop_body L WorkerThread cid (Generated (Some v)) ts p = Inl RuntimeError
   \<and> loop_body L EventLoop cid (Generated (Some v)) ts p
       = Inr (p @ [SendMessage cid (VideoChunk (b64encode L v) ts)])
   \<and> worker_step L cid \<lparr>w_avatar = a, w_pc = WBody b\<rparr> (Generated (Some v)) ts s p
       = (\<lparr>w_avatar = a, w_pc = WFinally\<rparr>, s, p)
   \<and> pending (run L cid ls (start s)) = []
   \<and> wire (srv (run lib0 ''client_5'' one_chunk_trace (start demo_server))) = [(1, AudioReceived)]
   \<and> map w_pc (threads (run lib0 ''client_5'' one_chunk_trace (start demo_server))) = [WDone]
   \<and> map_option audio_queue
       (clients (srv (run lib0 ''client_5'' one_chunk_trace (start demo_server))) ''client_5'')
       = Some []"
proof (intro conjI)
  show "loop_body L WorkerThread cid (Generated (Some v)) ts p = Inl RuntimeError"
    by (rule loop_body_worker)
  show "loop_body L EventLoop cid (Generated (Some v)) ts p
       = Inr (p @ [SendMessage cid (VideoChunk (b64encode L v) ts)])"
    by (simp add: loop_body_def)
  show "worker_step L cid \<lparr>w_avatar = a, w_pc = WBody b\<rparr> (Generated (Some v)) ts s p
       = (\<lparr>w_avatar = a, w_pc = WFinally\<rparr>, s, p)"
    by (simp add: worker_step_def loop_body_worker)
  show "pending (run L cid ls (start s)) = []"
    by (simp add: no_result_event_delivered)
  show "wire (srv (run lib0 ''client_5'' one_chunk_trace (start demo_server))) = [(1, AudioReceived)]"
    by (simp add: one_chunk_trace_def machine_defs)
  show "map w_pc (threads (run lib0 ''client_5'' one_chunk_trace (start demo_server))) = [WDone]"
    by (simp add: one_chunk_trace_def machine_defs)
  show "map_option audio_queue
       (clients (srv (run lib0 ''client_5'' one_chunk_trace (start demo_server))) ''client_5'')
       = Some []"
    by (simp add: one_chunk_trace_def machine_defs)
qed

text \<open>
  C3 on the code. Under every schedule the video and generation-error events on the
  connections are those that were there at the start: no result event is delivered for
  any chunk. On the example session three chunks are acknowledged three times; two
  workers each take one chunk, in arrival order, and return; no result event is written
  and the third chunk stays in the queue.
\<close>

theorem three_chunks_no_events:
  "results_on_wire (srv (run L cid ls (start s))) = results_on_wire s
   \<and> wire (srv (run lib0 ''client_5'' three_chunks_trace (start demo_server)))
       = [(1, AudioReceived), (1, AudioReceived), (1, AudioReceived)]
   \<and> pending (run lib0 ''client_5'' three_chunks_trace (start demo_server)) = []
   \<and> map w_pc (threads (run lib0 ''client_5'' three_chunks_trace (start demo_server)))
       = [WDone, WDone]
   \<and> map_option audio_queue
       (clients (srv (run lib0 ''client_5'' three_chunks_trace (start demo_server))) ''client_5'')
       = Some [''c'']"
proof (intro conjI)
  show "results_on_wire (srv (run L cid ls (start s))) = results_on_wire s"
    by (simp add: no_result_event_delivered)
  show "wire (srv (run lib0 ''client_5'' three_chunks_trace (start demo_server)))
       = [(1, AudioReceived), (1, AudioReceived), (1, AudioReceived)]"
    by (simp add: three_chunks_trace_def machine_defs)
  show "pending (run lib0 ''client_5'' three_chunks_trace (start demo_server)) = []"
    by (simp add: no_result_event_delivered)
  show "map w_pc (threads (run lib0 ''client_5'' three_chunks_trace (start demo_server)))
       = [WDone, WDone]"
    by (simp add: three_chunks_trace_def machine_defs)
  show "map_option audio_queue
       (clients (srv (run lib0 ''client_5'' three_chunks_trace (start demo_server))) ''client_5'')
       = Some [''c'']"
    by (simp add: three_chunks_trace_def machine_defs)
qed

subsection \<open>A stranded chunk\<close>

text \<open>
  C1 on the code. On the example session a second chunk arrives while the worker
  generates for the first: the handler sees the flag set and starts no thread; the
  worker leaves its loop, clears the flag and returns. The configuration reached has
  the second chunk in the queue, the flag clear, the handler idle, no pending task and
  no live thread, and no step of the event loop or of any thread changes it: the chunk
  stays queued until another chunk arrives.
\<close>

theorem chunk_stranded:
  "handler (run lib0 ''client_5'' strand_trace (start demo_server)) = Idle
   \<and> pending (run lib0 ''client_5'' strand_trace (start demo_server)) = []
   \<and> map w_pc (threads (run lib0 ''client_5'' strand_trace (start demo_server))) = [WDone]
   \<and> map_option audio_queue
       (clients (srv (run lib0 ''client_5'' strand_trace (start demo_server))) ''client_5'')
       = Some [''b'']
   \<and> map_option processing
       (clients (srv (run lib0 ''client_5'' strand_trace (start demo_server))) ''client_5'')
       = Some False
   \<and> exec lib0 ''client_5'' Loop (run lib0 ''client_5'' strand_trace (start demo_server))
       = run lib0 ''client_5'' strand_trace (start demo_server)
   \<and> exec lib0 ''client_5'' RunTask (run lib0 ''client_5'' strand_trace (start demo_server))
       = run lib0 ''client_5'' strand_trace (start demo_server)
   \<and> (\<forall>i out ts.
        exec lib0 ''client_5'' (Thread i out ts) (run lib0 ''client_5'' strand_trace (start demo_server))
         = run lib0 ''client_5'' strand_trace (start demo_server))"
proof -
  have r: "run lib0 ''client_5'' strand_trace (start demo_server) =
    \<lparr>srv = demo_server\<lparr>clients := [''client_5'' \<mapsto> demo_client\<lparr>audio_queue := [''b'']\<rparr>],
            wire := [(1, AudioReceived), (1, AudioReceived)]\<rparr>,
     handler = Idle,
     threads = [\<lparr>w_avatar = ''avatar_client_5_7'', w_pc = WDone\<rparr>],
     pending = []\<rparr>"
    by (simp add: strand_trace_def machine_defs)
  have t: "\<And>i out ts. exec lib0 ''client_5'' (Thread i out ts)
      (run lib0 ''client_5'' strand_trace (start demo_server))
         = run lib0 ''client_5'' strand_trace (start demo_server)"
    unfolding r by (simp add: thread_step_def worker_step_def)
  show ?thesis
    apply (intro conjI allI t)
    unfolding r by (simp_all add: loop_step_def task_step_def demo_client_def)
qed

end
